theory Spec2Isabelle
  imports Main "HOL-Library.Word"
begin

section \<open>Outcomes of a call\<close>

text \<open>
  The C++ methods return \<open>void\<close> and work by mutating the object they are called on
  (the fault tree, the XML document). A call ends in one of four ways, and the
  model keeps them apart:
  \<^item> \<open>Normal s\<close>: the call returns, the object is in state \<open>s\<close>;
  \<^item> \<open>Throw e s\<close>: the call throws the exception \<open>e\<close>; the object is left in state
    \<open>s\<close>, which the caller that catches the exception still sees;
  \<^item> \<open>Abort a\<close>: an \<open>assert\<close> fails (the text \<open>a\<close> is the asserted expression); the
    process is terminated by \<open>abort()\<close>, no exception reaches the caller and no
    state survives;
  \<^item> \<open>Undefined u\<close>: the call dereferences a null pointer or a past-the-end
    iterator, or reads a vector outside its bounds; C++ gives the program no
    defined behaviour from there on.

  Whether an \<open>assert\<close> is checked at all depends on how the program is built: the
  macro \<open>NDEBUG\<close> removes every assertion. Each function that asserts takes the
  build as its first parameter \<open>ndebug\<close>: \<open>False\<close> is the build with assertions,
  \<open>True\<close> the build with \<open>NDEBUG\<close>, in which the statement after the assertion is
  executed whether the asserted condition holds or not.
\<close>

datatype exception = Error string | ValueError string | LogicError string

datatype 's outcome = Normal 's | Throw exception 's | Abort string | Undefined string

section \<open>Events and gates\<close>

text \<open>
  Modelled from the spec: the header \<open>event.h\<close> with the classes \<open>Event\<close>, \<open>Gate\<close>,
  \<open>PrimaryEvent\<close>, \<open>BasicEvent\<close>, \<open>HouseEvent\<close> and \<open>CcfEvent\<close> is not among the
  sources. The types below follow the data model of the specification: a basic
  event has an identifier and an original (display) identifier; a CCF event is a
  basic event that also carries the owning group's name, the ordered list of the
  member identifiers it represents and the total group size; a primary event is
  a basic event (plain or CCF) or a house event; a gate has an identifier and a
  mapping from child identifier to child event, and a child is a gate, a primary
  event, or an event that is neither (the base class \<open>Event\<close>).

  \<open>std::map<std::string, EventPtr>\<close> is an association list in the map's
  iteration order.
\<close>

datatype BasicEvent =
    BasicEvent (event_id: string) (orig_id: string)
  | CcfEvent (event_id: string) (orig_id: string) (ccf_group_name: string)
      (member_names: "string list") (ccf_group_size: int)

datatype PrimaryEvent =
    Basic BasicEvent
  | HouseEvent string string

fun primary_orig_id :: "PrimaryEvent \<Rightarrow> string" where
  "primary_orig_id (Basic b) = orig_id b"
| "primary_orig_id (HouseEvent i oi) = oi"

datatype Event =
    GateEvent Gate
  | Primary PrimaryEvent
  | PlainEvent string
and Gate = Gate (gate_id: string) (children: "(string \<times> Event) list")

text \<open>\<open>boost::dynamic_pointer_cast<scram::PrimaryEvent>\<close>: null unless the pointee is a
  primary event.\<close>

fun dynamic_pointer_cast_PrimaryEvent :: "Event \<Rightarrow> PrimaryEvent option" where
  "dynamic_pointer_cast_PrimaryEvent (Primary p) = Some p"
| "dynamic_pointer_cast_PrimaryEvent (GateEvent g) = None"
| "dynamic_pointer_cast_PrimaryEvent (PlainEvent i) = None"

section \<open>Associative containers\<close>

text \<open>
  \<open>boost::unordered_map\<close> and \<open>std::map\<close> hold at most one entry per key. They are
  association lists in iteration order; \<open>count\<close> is 0 or 1, and \<open>insert\<close> adds the
  pair only when the key is absent (it never overwrites). The iteration order of
  an unordered map is not specified by the library: the model appends, and no
  theorem below depends on the position.
\<close>

definition map_count :: "('k \<times> 'v) list \<Rightarrow> 'k \<Rightarrow> nat" where
  "map_count m k = (case map_of m k of None \<Rightarrow> 0 | Some v \<Rightarrow> 1)"

definition map_insert :: "('k \<times> 'v) list \<Rightarrow> 'k \<times> 'v \<Rightarrow> ('k \<times> 'v) list" where
  "map_insert m kv = (case map_of m (fst kv) of None \<Rightarrow> m @ [kv] | Some v \<Rightarrow> m)"

section \<open>The fault tree (fault\_tree.cc)\<close>

text \<open>The data members of the class, named as in the source without the trailing
  underscore (which an Isabelle name cannot end with): \<open>name_\<close> is \<open>tree_name\<close>. The
  values of \<open>primary_events_\<close> are shared pointers, which may be null: \<open>None\<close>.\<close>

record FaultTree =
  tree_name :: string
  top_event :: "Gate option"
  top_event_id :: string
  inter_events :: "(string \<times> Gate) list"
  primary_events :: "(string \<times> PrimaryEvent option) list"
  lock :: bool
  warnings :: string

text \<open>The constructor: no top gate (a null pointer), the empty top identifier, empty
  containers, unlocked.\<close>

definition FaultTree_ctor :: "string \<Rightarrow> FaultTree" where
  "FaultTree_ctor name =
     \<lparr> tree_name = name, top_event = None, top_event_id = '''', inter_events = [],
       primary_events = [], lock = False, warnings = '''' \<rparr>"

definition AddGate :: "FaultTree \<Rightarrow> Gate \<Rightarrow> FaultTree outcome" where
  "AddGate t gate =
     (if lock t then Throw (Error ''The tree is locked. No change is allowed.'') t
      else if top_event_id t = '''' then
        Normal (t\<lparr> top_event := Some gate, top_event_id := gate_id gate \<rparr>)
      else if map_count (inter_events t) (gate_id gate) \<noteq> 0 \<or> gate_id gate = top_event_id t then
        Throw (ValueError ''Trying to doubly define a gate'') t
      else
        Normal (t\<lparr> inter_events := map_insert (inter_events t) (gate_id gate, gate) \<rparr>))"

text \<open>
  The loop of \<open>GetPrimaryEvents\<close> over the children of one gate. A child whose
  identifier is not a key of \<open>inter_events\<close> is cast to a primary event, and the
  cast gives null when the child is not one. The only check of the result is
  \<open>assert(primary_event != 0)\<close>: with assertions the call ends there; with
  \<open>NDEBUG\<close> the null pointer is inserted under the child's identifier like any
  other and the loop goes on. No path of the loop throws.
\<close>

fun GetPrimaryEvents_loop ::
  "bool \<Rightarrow> (string \<times> Event) list \<Rightarrow> FaultTree \<Rightarrow> FaultTree outcome" where
  "GetPrimaryEvents_loop ndebug [] t = Normal t"
| "GetPrimaryEvents_loop ndebug (it # rest) t =
     (if map_count (inter_events t) (fst it) = 0 then
        (let primary_event = dynamic_pointer_cast_PrimaryEvent (snd it) in
         if \<not> ndebug \<and> primary_event = None then Abort ''primary_event != 0''
         else
           GetPrimaryEvents_loop ndebug rest
             (t\<lparr> primary_events := map_insert (primary_events t) (fst it, primary_event) \<rparr>))
      else GetPrimaryEvents_loop ndebug rest t)"

text \<open>\<open>gate->children()\<close> on a null \<open>boost::shared_ptr\<close> fails the library's assertion
  \<open>px != 0\<close>; with \<open>NDEBUG\<close> it dereferences the null pointer.\<close>

definition GetPrimaryEvents :: "bool \<Rightarrow> Gate option \<Rightarrow> FaultTree \<Rightarrow> FaultTree outcome" where
  "GetPrimaryEvents ndebug gate t =
     (case gate of
        None \<Rightarrow> if ndebug then Undefined ''gate->children()'' else Abort ''px != 0''
      | Some g \<Rightarrow> GetPrimaryEvents_loop ndebug (children g) t)"

text \<open>The loop of \<open>GatherPrimaryEvents\<close> over the intermediate gates.\<close>

fun GatherPrimaryEvents_loop ::
  "bool \<Rightarrow> (string \<times> Gate) list \<Rightarrow> FaultTree \<Rightarrow> FaultTree outcome" where
  "GatherPrimaryEvents_loop ndebug [] t = Normal t"
| "GatherPrimaryEvents_loop ndebug (git # rest) t =
     (case GetPrimaryEvents ndebug (Some (snd git)) t of
        Normal t' \<Rightarrow> GatherPrimaryEvents_loop ndebug rest t'
      | Throw e t' \<Rightarrow> Throw e t'
      | Abort a \<Rightarrow> Abort a
      | Undefined u \<Rightarrow> Undefined u)"

definition GatherPrimaryEvents :: "bool \<Rightarrow> FaultTree \<Rightarrow> FaultTree outcome" where
  "GatherPrimaryEvents ndebug t =
     (let t1 = t\<lparr> lock := True \<rparr> in
      case GetPrimaryEvents ndebug (top_event t1) t1 of
        Normal t2 \<Rightarrow> GatherPrimaryEvents_loop ndebug (inter_events t2) t2
      | Throw e t2 \<Rightarrow> Throw e t2
      | Abort a \<Rightarrow> Abort a
      | Undefined u \<Rightarrow> Undefined u)"

text \<open>A caller that makes a sequence of \<open>AddGate\<close> calls on one tree, catching the
  exception of a failed call and going on with the tree as the call left it. The
  result lists the outcome of every call.\<close>

fun AddGate_calls :: "FaultTree \<Rightarrow> Gate list \<Rightarrow> FaultTree outcome list" where
  "AddGate_calls t [] = []"
| "AddGate_calls t (g # gs) =
     AddGate t g #
       (case AddGate t g of
          Normal t' \<Rightarrow> AddGate_calls t' gs
        | Throw e t' \<Rightarrow> AddGate_calls t' gs
        | Abort a \<Rightarrow> []
        | Undefined u \<Rightarrow> [])"

text \<open>A caller that builds a tree by a sequence of \<open>AddGate\<close> calls that all succeed:
  the first call that fails ends the construction with that failure.\<close>

fun AddGate_all :: "FaultTree \<Rightarrow> Gate list \<Rightarrow> FaultTree outcome" where
  "AddGate_all t [] = Normal t"
| "AddGate_all t (g # gs) =
     (case AddGate t g of
        Normal t' \<Rightarrow> AddGate_all t' gs
      | Throw e t' \<Rightarrow> Throw e t'
      | Abort a \<Rightarrow> Abort a
      | Undefined u \<Rightarrow> Undefined u)"

text \<open>The state of the object after a call, when there is one.\<close>

fun tree_after :: "'s outcome \<Rightarrow> 's option" where
  "tree_after (Normal s) = Some s"
| "tree_after (Throw e s) = Some s"
| "tree_after (Abort a) = None"
| "tree_after (Undefined u) = None"

subsection \<open>The identifiers one hop below the gates of a tree\<close>

text \<open>
  The vocabulary of the statements about \<open>GatherPrimaryEvents\<close>: the gates of a
  tree are its top gate and its intermediate gates; \<open>one_hop_ids\<close> lists the child
  identifiers of all of them. \<open>non_inter_ids\<close> keeps the identifiers that are not
  keys of the intermediate-gate mapping (the test the source makes);
  \<open>non_gate_ids\<close> follows the words of the specification's claim and also drops
  the top gate's identifier.
\<close>

definition tree_gates :: "FaultTree \<Rightarrow> Gate list" where
  "tree_gates t =
     (case top_event t of None \<Rightarrow> [] | Some g \<Rightarrow> [g]) @ map snd (inter_events t)"

definition one_hop_ids :: "FaultTree \<Rightarrow> string list" where
  "one_hop_ids t = concat (map (\<lambda>g. map fst (children g)) (tree_gates t))"

definition non_inter_ids :: "FaultTree \<Rightarrow> string list" where
  "non_inter_ids t = filter (\<lambda>k. k \<notin> set (map fst (inter_events t))) (one_hop_ids t)"

definition non_gate_ids :: "FaultTree \<Rightarrow> string list" where
  "non_gate_ids t =
     filter (\<lambda>k. k \<notin> set (map fst (inter_events t)) \<and> k \<noteq> top_event_id t) (one_hop_ids t)"

section \<open>The XML document (libxml++)\<close>

text \<open>
  The report is an \<open>xmlpp::Document\<close>: at most one root node; a node is an element
  with a name, attributes in the order they were first set, and child nodes in
  document order, or a text node. \<open>get_root_node\<close> is null for the empty document.
\<close>

datatype Node = Element string "(string \<times> string) list" "Node list" | TextNode string

type_synonym Document = "Node option"

fun get_name :: "Node \<Rightarrow> string" where
  "get_name (Element nm as cs) = nm"
| "get_name (TextNode t) = ''text''"

fun get_attributes :: "Node \<Rightarrow> (string \<times> string) list" where
  "get_attributes (Element nm as cs) = as"
| "get_attributes (TextNode t) = []"

fun get_children :: "Node \<Rightarrow> Node list" where
  "get_children (Element nm as cs) = cs"
| "get_children (TextNode t) = []"

text \<open>The empty element that \<open>add_child(name)\<close> and \<open>create_root_node(name)\<close> make.\<close>

definition element :: "string \<Rightarrow> Node" where
  "element nm = Element nm [] []"

text \<open>\<open>set_attribute\<close> replaces the value of an attribute that is there and appends a new
  one otherwise.\<close>

fun set_attribute_list :: "(string \<times> string) list \<Rightarrow> string \<Rightarrow> string \<Rightarrow> (string \<times> string) list" where
  "set_attribute_list [] nm v = [(nm, v)]"
| "set_attribute_list (a # as) nm v =
     (if fst a = nm then (nm, v) # as else a # set_attribute_list as nm v)"

fun set_attribute :: "Node \<Rightarrow> string \<Rightarrow> string \<Rightarrow> Node" where
  "set_attribute (Element nm as cs) a v = Element nm (set_attribute_list as a v) cs"
| "set_attribute (TextNode t) a v = TextNode t"

text \<open>
  \<open>add_child\<close> appends a child after the last child. The source adds an empty
  element and fills it through the pointer it gets back, and while it does so the
  element stays the last child of its parent; the model fills the element first
  and appends it where the source appends the empty one.
\<close>

fun add_child :: "Node \<Rightarrow> Node \<Rightarrow> Node" where
  "add_child (Element nm as cs) c = Element nm as (cs @ [c])"
| "add_child (TextNode t) c = TextNode t"

definition add_child_text :: "Node \<Rightarrow> string \<Rightarrow> Node" where
  "add_child_text n t = add_child n (TextNode t)"

subsection \<open>Node pointers and XPath\<close>

text \<open>
  A pointer to a node of the document is the path of child indices from the root.
  \<open>xpath_find [a, b, c] n\<close> is \<open>n->find("./a/b/c")\<close>: the paths of the elements reached
  by child steps with these names, in document order. \<open>update_at\<close> is a change made
  through such a pointer; \<open>get_at\<close> reads through it.
\<close>

fun is_element_named :: "string \<Rightarrow> Node \<Rightarrow> bool" where
  "is_element_named nm (Element m as cs) = (m = nm)"
| "is_element_named nm (TextNode t) = False"

fun find_from :: "nat \<Rightarrow> string \<Rightarrow> Node list \<Rightarrow> nat list" where
  "find_from i nm [] = []"
| "find_from i nm (c # cs) =
     (if is_element_named nm c then i # find_from (Suc i) nm cs else find_from (Suc i) nm cs)"

definition find_children :: "string \<Rightarrow> Node \<Rightarrow> nat list" where
  "find_children nm n = find_from 0 nm (get_children n)"

primrec xpath_find :: "string list \<Rightarrow> Node \<Rightarrow> nat list list" where
  "xpath_find [] = (\<lambda>n. [[]])"
| "xpath_find (nm # rest) =
     (\<lambda>n. concat (map (\<lambda>i. map ((#) i) (xpath_find rest (get_children n ! i)))
                      (find_children nm n)))"

primrec update_at :: "nat list \<Rightarrow> (Node \<Rightarrow> Node) \<Rightarrow> Node \<Rightarrow> Node" where
  "update_at [] f = (\<lambda>n. f n)"
| "update_at (i # p) f =
     (\<lambda>n. case n of
             Element nm as cs \<Rightarrow> Element nm as (cs[i := update_at p f (cs ! i)])
           | TextNode t \<Rightarrow> TextNode t)"

primrec get_at :: "nat list \<Rightarrow> Node \<Rightarrow> Node option" where
  "get_at [] = (\<lambda>n. Some n)"
| "get_at (i # p) =
     (\<lambda>n. if i < length (get_children n) then get_at p (get_children n ! i) else None)"

text \<open>The nodes that an XPath of child steps selects, in document order: what the
  statements below observe of a document.\<close>

primrec xpath_nodes :: "string list \<Rightarrow> Node \<Rightarrow> Node list" where
  "xpath_nodes [] = (\<lambda>n. [n])"
| "xpath_nodes (nm # rest) =
     (\<lambda>n. concat (map (xpath_nodes rest) (filter (is_element_named nm) (get_children n))))"

section \<open>Numbers as text\<close>

text \<open>
  \<open>boost::lexical_cast<std::string>\<close> of an integer is its decimal numeral
  (\<open>lexical_cast_nat\<close> for the unsigned sizes, \<open>lexical_cast_int\<close> for \<open>int\<close>). For a
  \<open>double\<close> the text depends on floating-point formatting, which is not modelled:
  the type \<open>'d\<close> stands for \<open>double\<close> and every function that prints one takes the
  conversion \<open>lexical_cast :: 'd \<Rightarrow> string\<close> as a parameter.
\<close>

definition digit_char :: "nat \<Rightarrow> char" where
  "digit_char d = ''0123456789'' ! d"

fun lexical_cast_nat :: "nat \<Rightarrow> string" where
  "lexical_cast_nat n =
     (if n < 10 then [digit_char n]
      else lexical_cast_nat (n div 10) @ [digit_char (n mod 10)])"

declare lexical_cast_nat.simps [simp del]

definition lexical_cast_int :: "int \<Rightarrow> string" where
  "lexical_cast_int i =
     (if 0 \<le> i then lexical_cast_nat (nat i) else CHR ''-'' # lexical_cast_nat (nat (- i)))"

section \<open>Inputs of the reporter\<close>

text \<open>
  Modelled from the spec: the headers \<open>settings.h\<close>, \<open>risk_analysis.h\<close>,
  \<open>fault_tree_analysis.h\<close>, \<open>probability_analysis.h\<close> and \<open>uncertainty_analysis.h\<close>
  are not among the sources. The records hold the members that \<open>reporter.cc\<close>
  reads, with the types it reads them at, named as in the source without the
  trailing underscore; a member or accessor name that two classes share
  (\<open>warnings\<close>, \<open>basic_events_\<close>, \<open>p_time_\<close>) carries the class as a prefix. Of the containers of \<open>RiskAnalysis\<close> only \<open>size()\<close> is read, so the record
  holds the sizes. A \<open>std::set\<close> is the list of its elements in iteration order; a
  minimal cut set and a key of \<open>prob_of_min_sets\<close> are such lists.
\<close>

record 'd Settings =
  limit_order :: int
  ccf_analysis :: bool
  probability_analysis :: bool
  approx :: string
  cut_off :: 'd
  num_sums :: int
  importance_analysis :: bool
  uncertainty_analysis :: bool
  trials :: int

record RiskAnalysis =
  gates_size :: nat
  basic_events_size :: nat
  primary_events_size :: nat
  ccf_groups_size :: nat
  fault_trees_size :: nat

record 'd FaultTreeAnalysis =
  num_basic_events :: int
  min_cut_sets :: "string list list"
  fta_warnings :: string
  fta_basic_events :: "(string \<times> BasicEvent) list"
  analysis_time :: 'd

record 'd ProbabilityAnalysis =
  p_total :: 'd
  pa_warnings :: string
  prob_of_min_sets :: "(string list \<times> 'd) list"
  pa_basic_events :: "(string \<times> BasicEvent) list"
  importance :: "(string \<times> 'd list) list"
  pa_p_time :: 'd
  imp_time :: 'd

record 'd UncertaintyAnalysis =
  ua_warnings :: string
  mean :: 'd
  sigma :: 'd
  confidence_interval :: "'d \<times> 'd"
  distribution :: "('d \<times> 'd) list"
  ua_p_time :: 'd

text \<open>\<open>boost::dynamic_pointer_cast<CcfEvent>\<close> of a basic event: null unless it is a CCF
  event.\<close>

fun dynamic_pointer_cast_CcfEvent :: "BasicEvent \<Rightarrow> BasicEvent option" where
  "dynamic_pointer_cast_CcfEvent (CcfEvent i oi g ms sz) = Some (CcfEvent i oi g ms sz)"
| "dynamic_pointer_cast_CcfEvent (BasicEvent i oi) = None"

section \<open>The reporter (reporter.cc)\<close>

subsection \<open>SetupReport\<close>

text \<open>
  The version string \<open>version::core()\<close> and the local time printed into the report
  are inputs from outside the source: the parameters \<open>version_core\<close> and
  \<open>local_time\<close>. The house-event count is a difference of two \<open>size_t\<close> values and
  wraps modulo \<open>2^64\<close>.
\<close>

definition SetupReport ::
  "('d \<Rightarrow> string) \<Rightarrow> string \<Rightarrow> string \<Rightarrow> RiskAnalysis \<Rightarrow> 'd Settings \<Rightarrow> Document
     \<Rightarrow> Document outcome" where
  "SetupReport lexical_cast version_core local_time risk_an settings doc =
     (case doc of
        Some r \<Rightarrow> Throw (LogicError ''The passed document is not empty for reporting'') doc
      | None \<Rightarrow>
          let information = element ''information'';
              software = element ''software'';
              software = set_attribute software ''name'' ''SCRAM'';
              software = set_attribute software ''version'' version_core;
              information = add_child information software;
              information = add_child information (add_child_text (element ''time'') local_time);
              information = add_child information (element ''performance'');
              quant = element ''calculated-quantity'';
              quant = set_attribute quant ''name'' ''Minimal Cut Set Analysis'';
              quant = set_attribute quant ''definition''
                        ''Groups of events sufficient for a top event failure'';
              information = add_child information quant;
              methods = element ''calculation-method'';
              methods = set_attribute methods ''name'' ''MOCUS'';
              methods = add_child methods
                          (add_child (element ''limits'')
                             (add_child_text (element ''number-of-basic-events'')
                                (lexical_cast_int (limit_order settings))));
              information = add_child information methods;
              information =
                (if ccf_analysis settings then
                   let ccf_an = element ''calculated-quantity'';
                       ccf_an = set_attribute ccf_an ''name'' ''CCF Analysis'';
                       ccf_an = set_attribute ccf_an ''definition''
                                  ''Failure of multiple elements due to a common cause''
                   in add_child information ccf_an
                 else information);
              information =
                (if probability_analysis settings then
                   let quant = element ''calculated-quantity'';
                       quant = set_attribute quant ''name'' ''Probability Analysis'';
                       quant = set_attribute quant ''definition''
                                 ''Quantitative analysis of failure probability'';
                       quant = set_attribute quant ''approximation'' (approx settings);
                       information = add_child information quant;
                       methods = element ''calculation-method'';
                       methods = set_attribute methods ''name'' ''Numerical Probability'';
                       limits = element ''limits'';
                       limits = add_child limits
                                  (add_child_text (element ''cut-off'')
                                     (lexical_cast (cut_off settings)));
                       limits = add_child limits
                                  (add_child_text (element ''number-of-sums'')
                                     (lexical_cast_int (num_sums settings)));
                       methods = add_child methods limits
                   in add_child information methods
                 else information);
              information =
                (if importance_analysis settings then
                   let quant = element ''calculated-quantity'';
                       quant = set_attribute quant ''name'' ''Importance Analysis'';
                       quant = set_attribute quant ''definition''
                                 ''Quantitative analysis of contributions and importance of events.''
                   in add_child information quant
                 else information);
              information =
                (if uncertainty_analysis settings then
                   let quant = element ''calculated-quantity'';
                       quant = set_attribute quant ''name'' ''Uncertainty Analysis'';
                       quant = set_attribute quant ''definition''
                                 ''Calculation of uncertainties with the Monte Carlo method'';
                       information = add_child information quant;
                       methods = element ''calculation-method'';
                       methods = set_attribute methods ''name'' ''Monte Carlo'';
                       limits = element ''limits'';
                       limits = add_child limits
                                  (add_child_text (element ''number-of-trials'')
                                     (lexical_cast_int (trials settings)));
                       methods = add_child methods limits
                   in add_child information methods
                 else information);
              model = element ''model-features'';
              model = add_child model
                        (add_child_text (element ''gates'') (lexical_cast_nat (gates_size risk_an)));
              model = add_child model
                        (add_child_text (element ''basic-events'')
                           (lexical_cast_nat (basic_events_size risk_an)));
              model = add_child model
                        (add_child_text (element ''house-events'')
                           (lexical_cast_nat
                              (nat ((int (primary_events_size risk_an)
                                     - int (basic_events_size risk_an)) mod 2 ^ 64))));
              model = add_child model
                        (add_child_text (element ''ccf-groups'')
                           (lexical_cast_nat (ccf_groups_size risk_an)));
              model = add_child model
                        (add_child_text (element ''fault-trees'')
                           (lexical_cast_nat (fault_trees_size risk_an)));
              information = add_child information model;
              root = element ''report'';
              root = add_child root information;
              root = add_child root (element ''results'')
          in Normal (Some root))"

subsection \<open>ReportOrphans\<close>

text \<open>
  The set of orphans is ordered by pointer value; the list is its iteration
  order. The function asserts that the set is not empty and that the document has
  one \<open>information\<close> section; with \<open>NDEBUG\<close> neither is checked, the text is built
  from whatever the set holds and the warning goes to \<open>inf[0]\<close>.
\<close>

fun ReportOrphans_loop :: "PrimaryEvent list \<Rightarrow> string \<Rightarrow> string" where
  "ReportOrphans_loop [] out = out"
| "ReportOrphans_loop (it # rest) out = ReportOrphans_loop rest (out @ primary_orig_id it @ '' '')"

definition ReportOrphans :: "bool \<Rightarrow> PrimaryEvent list \<Rightarrow> Document \<Rightarrow> Document outcome" where
  "ReportOrphans ndebug orphan_primary_events doc =
     (if \<not> ndebug \<and> orphan_primary_events = [] then Abort ''!orphan_primary_events.empty()''
      else
        let out = '''';
            out = out @ ''WARNING! Found unused primary events: '';
            out = ReportOrphans_loop orphan_primary_events out
        in case doc of
             None \<Rightarrow> Undefined ''root->find''
           | Some root \<Rightarrow>
               (let inf = find_children ''information'' root
                in if \<not> ndebug \<and> length inf \<noteq> 1 then Abort ''inf.size() == 1''
                   else
                     (case inf of
                        [] \<Rightarrow> Undefined ''inf[0]''
                      | inf0 # inf_rest \<Rightarrow>
                          Normal (Some (update_at [inf0]
                            (\<lambda>information.
                               add_child information (add_child_text (element ''warning'') out))
                            root)))))"

subsection \<open>ReportFta\<close>

text \<open>
  \<open>boost::split(names, full_name, boost::is_any_of(" "), boost::token_compress_on)\<close>:
  the tokens between runs of spaces. A run of adjacent spaces separates once; a
  space at the very start or end of the string still gives an empty first or
  last token, so there is always at least one token. The flag of \<open>split_loop\<close>
  says that the previous character was a space.
\<close>

fun split_loop :: "bool \<Rightarrow> string \<Rightarrow> string \<Rightarrow> string list" where
  "split_loop d cur [] = [cur]"
| "split_loop d cur (c # cs) =
     (if c = CHR '' '' then
        (if d then split_loop True cur cs else cur # split_loop True [] cs)
      else split_loop False (cur @ [c]) cs)"

definition split :: "string \<Rightarrow> string list" where
  "split full_name = split_loop False [] full_name"

text \<open>\<open>boost::replace_first(s, search, format)\<close>: the first occurrence of \<open>search\<close> in \<open>s\<close>,
  if there is one, is replaced by \<open>format\<close>.\<close>

fun replace_first :: "string \<Rightarrow> string \<Rightarrow> string \<Rightarrow> string" where
  "replace_first [] search fmt = (if search = [] then fmt else [])"
| "replace_first (c # cs) search fmt =
     (if take (length search) (c # cs) = search then fmt @ drop (length search) (c # cs)
      else c # replace_first cs search fmt)"

text \<open>The loop over \<open>ccf_event->member_names()\<close>.\<close>

fun member_names_loop :: "string list \<Rightarrow> Node \<Rightarrow> Node" where
  "member_names_loop [] ccf_element = ccf_element"
| "member_names_loop (it # rest) ccf_element =
     member_names_loop rest
       (add_child ccf_element (set_attribute (element ''basic-event'') ''name'' it))"

text \<open>
  The body of the loop over the members of one minimal cut set: it adds the entry
  of the member \<open>full_name\<close> to the product. The member counts as negated when the
  first of its tokens is \<open>not\<close>, and the name that is looked up is then the member
  with the first occurrence of \<open>"not "\<close> removed. \<open>basic_events_.find(name)->second\<close>
  dereferences the past-the-end iterator when the name is not a key.
\<close>

definition ReportFta_member ::
  "bool \<Rightarrow> (string \<times> BasicEvent) list \<Rightarrow> string \<Rightarrow> Node \<Rightarrow> Node outcome" where
  "ReportFta_member ndebug basic_events full_name product =
     (let names = split full_name
      in if \<not> ndebug \<and> length names < 1 then Abort ''names.size() >= 1''
      else case names of
        [] \<Rightarrow> Undefined ''names[0]''
      | names0 # names_rest \<Rightarrow>
          if names0 = ''not'' then
            (let comp_name = replace_first full_name ''not '' '''' in
             case map_of basic_events comp_name of
               None \<Rightarrow> Undefined ''fta->basic_events_.find(comp_name)->second''
             | Some basic_event \<Rightarrow>
                 (case dynamic_pointer_cast_CcfEvent basic_event of
                    None \<Rightarrow>
                      Normal (add_child product
                        (add_child (element ''not'')
                           (set_attribute (element ''basic-event'') ''name''
                              (orig_id basic_event))))
                  | Some ccf_event \<Rightarrow>
                      let ccf_element = element ''ccf-event'';
                          ccf_element = set_attribute ccf_element ''ccf-group''
                                          (ccf_group_name ccf_event);
                          ccf_element = set_attribute ccf_element ''order''
                                          (lexical_cast_nat (length (member_names ccf_event)));
                          ccf_element = set_attribute ccf_element ''group-size''
                                          (lexical_cast_int (ccf_group_size ccf_event));
                          ccf_element = member_names_loop (member_names ccf_event) ccf_element
                      in Normal (add_child product (add_child (element ''not'') ccf_element))))
          else
            (case map_of basic_events full_name of
               None \<Rightarrow> Undefined ''fta->basic_events_.find(full_name)->second''
             | Some basic_event \<Rightarrow>
                 (case dynamic_pointer_cast_CcfEvent basic_event of
                    None \<Rightarrow>
                      Normal (add_child product
                        (set_attribute (element ''basic-event'') ''name'' (orig_id basic_event)))
                  | Some ccf_event \<Rightarrow>
                      let ccf_element = element ''ccf-event'';
                          ccf_element = set_attribute ccf_element ''ccf-group''
                                          (ccf_group_name ccf_event);
                          ccf_element = set_attribute ccf_element ''order''
                                          (lexical_cast_nat (length (member_names ccf_event)));
                          ccf_element = set_attribute ccf_element ''group-size''
                                          (lexical_cast_int (ccf_group_size ccf_event));
                          ccf_element = member_names_loop (member_names ccf_event) ccf_element
                      in Normal (add_child product ccf_element))))"

text \<open>The loop over the members of one minimal cut set.\<close>

fun ReportFta_members ::
  "bool \<Rightarrow> (string \<times> BasicEvent) list \<Rightarrow> string list \<Rightarrow> Node \<Rightarrow> Node outcome" where
  "ReportFta_members ndebug basic_events [] product = Normal product"
| "ReportFta_members ndebug basic_events (it_set # rest) product =
     (case ReportFta_member ndebug basic_events it_set product of
        Normal product' \<Rightarrow> ReportFta_members ndebug basic_events rest product'
      | Throw e n \<Rightarrow> Throw e n
      | Abort a \<Rightarrow> Abort a
      | Undefined u \<Rightarrow> Undefined u)"

text \<open>The body of the loop over the minimal cut sets: the product of one cut set.
  \<open>prob_analysis\<close> is a shared pointer that may be null.\<close>

definition ReportFta_product ::
  "bool \<Rightarrow> ('d \<Rightarrow> string) \<Rightarrow> 'd FaultTreeAnalysis \<Rightarrow> 'd ProbabilityAnalysis option
     \<Rightarrow> string list \<Rightarrow> Node outcome" where
  "ReportFta_product ndebug lexical_cast fta prob_analysis it_min =
     (let product = element ''product'';
          product = set_attribute product ''order'' (lexical_cast_nat (length it_min))
      in case prob_analysis of
           None \<Rightarrow> ReportFta_members ndebug (fta_basic_events fta) it_min product
         | Some pa \<Rightarrow>
             (case map_of (prob_of_min_sets pa) it_min of
                None \<Rightarrow> Undefined ''prob_analysis->prob_of_min_sets().find(*it_min)->second''
              | Some p \<Rightarrow>
                  ReportFta_members ndebug (fta_basic_events fta) it_min
                    (set_attribute product ''probability'' (lexical_cast p))))"

fun ReportFta_products ::
  "bool \<Rightarrow> ('d \<Rightarrow> string) \<Rightarrow> 'd FaultTreeAnalysis \<Rightarrow> 'd ProbabilityAnalysis option
     \<Rightarrow> string list list \<Rightarrow> Node \<Rightarrow> Node outcome" where
  "ReportFta_products ndebug lexical_cast fta prob_analysis [] sum_of_products =
     Normal sum_of_products"
| "ReportFta_products ndebug lexical_cast fta prob_analysis (it_min # rest) sum_of_products =
     (case ReportFta_product ndebug lexical_cast fta prob_analysis it_min of
        Normal product \<Rightarrow>
          ReportFta_products ndebug lexical_cast fta prob_analysis rest
            (add_child sum_of_products product)
      | Throw e n \<Rightarrow> Throw e n
      | Abort a \<Rightarrow> Abort a
      | Undefined u \<Rightarrow> Undefined u)"

text \<open>
  \<open>ReportFta\<close> in three parts: the \<open>sum-of-products\<close> element that it puts under
  \<open>results\<close>, the \<open>calculation-time\<close> element that it puts under \<open>performance\<close>, and
  the function itself, which finds the two places in the document. After
  \<open>assert(res.size() == 1)\<close> it takes \<open>res[0]\<close>, and after \<open>assert(perf.size() == 1)\<close>
  it takes \<open>perf[0]\<close>: with \<open>NDEBUG\<close> that is the first node of a set of several,
  and a read outside the bounds of an empty set.
\<close>

definition ReportFta_sum_of_products ::
  "bool \<Rightarrow> ('d \<Rightarrow> string) \<Rightarrow> string \<Rightarrow> 'd FaultTreeAnalysis \<Rightarrow> 'd ProbabilityAnalysis option
     \<Rightarrow> Node outcome" where
  "ReportFta_sum_of_products ndebug lexical_cast ft_name fta prob_analysis =
     (let sum_of_products = element ''sum-of-products'';
          sum_of_products = set_attribute sum_of_products ''name'' ft_name;
          sum_of_products = set_attribute sum_of_products ''basic-events''
                              (lexical_cast_int (num_basic_events fta));
          sum_of_products = set_attribute sum_of_products ''products''
                              (lexical_cast_nat (length (min_cut_sets fta)));
          sum_of_products =
            (case prob_analysis of
               None \<Rightarrow> sum_of_products
             | Some pa \<Rightarrow>
                 set_attribute sum_of_products ''probability'' (lexical_cast (p_total pa)));
          warning = '''';
          warning = warning @ fta_warnings fta;
          warning =
            (case prob_analysis of
               None \<Rightarrow> warning
             | Some pa \<Rightarrow> warning @ pa_warnings pa);
          sum_of_products =
            (if warning \<noteq> '''' then
               add_child sum_of_products (add_child_text (element ''warning'') warning)
             else sum_of_products)
      in ReportFta_products ndebug lexical_cast fta prob_analysis (min_cut_sets fta)
           sum_of_products)"

definition ReportFta_calc_time ::
  "('d \<Rightarrow> string) \<Rightarrow> string \<Rightarrow> 'd FaultTreeAnalysis \<Rightarrow> 'd ProbabilityAnalysis option \<Rightarrow> Node" where
  "ReportFta_calc_time lexical_cast ft_name fta prob_analysis =
     (let calc_time = element ''calculation-time'';
          calc_time = set_attribute calc_time ''name'' ft_name;
          calc_time = add_child calc_time
                        (add_child_text (element ''minimal-cut-set'')
                           (lexical_cast (analysis_time fta)))
      in case prob_analysis of
           None \<Rightarrow> calc_time
         | Some pa \<Rightarrow>
             add_child calc_time
               (add_child_text (element ''probability'') (lexical_cast (pa_p_time pa))))"

definition ReportFta ::
  "bool \<Rightarrow> ('d \<Rightarrow> string) \<Rightarrow> string \<Rightarrow> 'd FaultTreeAnalysis \<Rightarrow> 'd ProbabilityAnalysis option
     \<Rightarrow> Document \<Rightarrow> Document outcome" where
  "ReportFta ndebug lexical_cast ft_name fta prob_analysis doc =
     (case doc of
        None \<Rightarrow> Undefined ''root->find''
      | Some root \<Rightarrow>
          (let res = find_children ''results'' root
           in if \<not> ndebug \<and> length res \<noteq> 1 then Abort ''res.size() == 1''
           else case res of
             [] \<Rightarrow> Undefined ''res[0]''
           | res0 # res_rest \<Rightarrow>
               (case ReportFta_sum_of_products ndebug lexical_cast ft_name fta prob_analysis of
                  Normal sum_of_products \<Rightarrow>
                    (let root = update_at [res0]
                                  (\<lambda>results. add_child results sum_of_products) root;
                         perf = xpath_find [''information'', ''performance''] root
                     in if \<not> ndebug \<and> length perf \<noteq> 1 then Abort ''perf.size() == 1''
                     else case perf of
                       [] \<Rightarrow> Undefined ''perf[0]''
                     | perf0 # perf_rest \<Rightarrow>
                         Normal (Some (update_at perf0
                           (\<lambda>performance.
                              add_child performance
                                (ReportFta_calc_time lexical_cast ft_name fta prob_analysis))
                           root)))
                | Throw e n \<Rightarrow> Throw e doc
                | Abort a \<Rightarrow> Abort a
                | Undefined u \<Rightarrow> Undefined u)))"

subsection \<open>The shared end of ReportImportance and ReportUncertainty\<close>

text \<open>
  Both writers end with the same four statements: find
  \<open>./information/performance/calculation-time\<close>, assert that the node set is not
  empty, take \<open>calc_times.back()\<close> and add one child with a text to it. The name of
  the child and the text are all that differs. With \<open>NDEBUG\<close>, \<open>back()\<close> of the
  empty set is undefined.
\<close>

definition add_to_last_calc_time ::
  "bool \<Rightarrow> string \<Rightarrow> string \<Rightarrow> Node \<Rightarrow> Document outcome" where
  "add_to_last_calc_time ndebug child_name text root =
     (let calc_times = xpath_find [''information'', ''performance'', ''calculation-time''] root
      in if \<not> ndebug \<and> calc_times = [] then Abort ''!calc_times.empty()''
         else if calc_times = [] then Undefined ''calc_times.back()''
         else Normal (Some (update_at (last calc_times)
                (\<lambda>calc_time. add_child calc_time (add_child_text (element child_name) text))
                root)))"

subsection \<open>ReportImportance\<close>

text \<open>The loop over the importance map: five factors per basic event, read at the
  indices 0 to 4 of a vector (reading past its end is undefined).\<close>

fun ReportImportance_loop ::
  "('d \<Rightarrow> string) \<Rightarrow> (string \<times> BasicEvent) list \<Rightarrow> (string \<times> 'd list) list \<Rightarrow> Node
     \<Rightarrow> Node outcome" where
  "ReportImportance_loop lexical_cast basic_events [] importance_el = Normal importance_el"
| "ReportImportance_loop lexical_cast basic_events (it # rest) importance_el =
     (case map_of basic_events (fst it) of
        None \<Rightarrow> Undefined ''prob_analysis->basic_events_.find(it->first)->second''
      | Some ev \<Rightarrow>
          if length (snd it) < 5 then Undefined ''it->second[i]''
          else
            (let basic_event = element ''basic-event'';
                 basic_event = set_attribute basic_event ''name'' (orig_id ev);
                 basic_event = set_attribute basic_event ''DIF'' (lexical_cast (snd it ! 0));
                 basic_event = set_attribute basic_event ''MIF'' (lexical_cast (snd it ! 1));
                 basic_event = set_attribute basic_event ''CIF'' (lexical_cast (snd it ! 2));
                 basic_event = set_attribute basic_event ''RRW'' (lexical_cast (snd it ! 3));
                 basic_event = set_attribute basic_event ''RAW'' (lexical_cast (snd it ! 4))
             in ReportImportance_loop lexical_cast basic_events rest
                  (add_child importance_el basic_event)))"

text \<open>The \<open>importance\<close> element that \<open>ReportImportance\<close> puts under \<open>results\<close>, and the
  function itself.\<close>

definition ReportImportance_importance ::
  "('d \<Rightarrow> string) \<Rightarrow> string \<Rightarrow> 'd ProbabilityAnalysis \<Rightarrow> Node outcome" where
  "ReportImportance_importance lexical_cast ft_name prob_analysis =
     (let importance_el = element ''importance'';
          importance_el = set_attribute importance_el ''name'' ft_name;
          importance_el = set_attribute importance_el ''basic-events''
                            (lexical_cast_nat (length (importance prob_analysis)));
          warning = '''';
          warning = warning @ pa_warnings prob_analysis;
          importance_el =
            (if warning \<noteq> '''' then
               add_child importance_el (add_child_text (element ''warning'') warning)
             else importance_el)
      in ReportImportance_loop lexical_cast (pa_basic_events prob_analysis)
           (importance prob_analysis) importance_el)"

definition ReportImportance ::
  "bool \<Rightarrow> ('d \<Rightarrow> string) \<Rightarrow> string \<Rightarrow> 'd ProbabilityAnalysis \<Rightarrow> Document
     \<Rightarrow> Document outcome" where
  "ReportImportance ndebug lexical_cast ft_name prob_analysis doc =
     (case doc of
        None \<Rightarrow> Undefined ''root->find''
      | Some root \<Rightarrow>
          (let res = find_children ''results'' root
           in if \<not> ndebug \<and> length res \<noteq> 1 then Abort ''res.size() == 1''
           else case res of
             [] \<Rightarrow> Undefined ''res[0]''
           | res0 # res_rest \<Rightarrow>
               (case ReportImportance_importance lexical_cast ft_name prob_analysis of
                  Normal importance_el \<Rightarrow>
                    add_to_last_calc_time ndebug ''importance''
                      (lexical_cast (imp_time prob_analysis))
                      (update_at [res0] (\<lambda>results. add_child results importance_el) root)
                | Throw e n \<Rightarrow> Throw e doc
                | Abort a \<Rightarrow> Abort a
                | Undefined u \<Rightarrow> Undefined u)))"

subsection \<open>ReportUncertainty\<close>

text \<open>
  \<open>int num_bins = uncert_analysis->distribution().size() - 1\<close>: the subtraction is
  done in \<open>size_t\<close> (a 64-bit word, so that size 0 gives \<open>2^64 - 1\<close>), and the
  result is converted to \<open>int\<close> (a 32-bit word read as a signed number), which
  keeps the low 32 bits.
\<close>

definition num_bins_of :: "nat \<Rightarrow> int" where
  "num_bins_of sz = sint (ucast ((word_of_nat sz :: 64 word) - 1) :: 32 word)"

text \<open>The loop \<open>for (int i = 0; i < num_bins; ++i)\<close>. The reads \<open>distribution()[i]\<close> and
  \<open>distribution()[i + 1]\<close> are within the vector (lemma \<open>num_bins_of_less\<close> below).\<close>

function ReportUncertainty_loop ::
  "('d \<Rightarrow> string) \<Rightarrow> ('d \<times> 'd) list \<Rightarrow> int \<Rightarrow> int \<Rightarrow> Node \<Rightarrow> Node" where
  "ReportUncertainty_loop lexical_cast dist num_bins i quantiles =
     (if i < num_bins then
        (let quant = element ''quantile'';
             quant = set_attribute quant ''number'' (lexical_cast_int (i + 1));
             lower = fst (dist ! nat i);
             upper = fst (dist ! nat (i + 1));
             val = snd (dist ! nat (i + 1));
             quant = set_attribute quant ''mean'' (lexical_cast val);
             quant = set_attribute quant ''lower-bound'' (lexical_cast lower);
             quant = set_attribute quant ''upper-bound'' (lexical_cast upper)
         in ReportUncertainty_loop lexical_cast dist num_bins (i + 1)
              (add_child quantiles quant))
      else quantiles)"
  by pat_completeness auto
termination
  by (relation "measure (\<lambda>(lexical_cast, dist, num_bins, i, quantiles). nat (num_bins - i))") auto

declare ReportUncertainty_loop.simps [simp del]

text \<open>The \<open>measure\<close> element that \<open>ReportUncertainty\<close> puts under \<open>results\<close>, and the
  function itself.\<close>

definition ReportUncertainty_measure ::
  "('d \<Rightarrow> string) \<Rightarrow> string \<Rightarrow> 'd UncertaintyAnalysis \<Rightarrow> Node" where
  "ReportUncertainty_measure lexical_cast ft_name uncert_analysis =
     (let measure_el = element ''measure'';
          measure_el = set_attribute measure_el ''name'' ft_name;
          warning = '''';
          warning = warning @ ua_warnings uncert_analysis;
          measure_el =
            (if warning \<noteq> '''' then
               add_child measure_el (add_child_text (element ''warning'') warning)
             else measure_el);
          measure_el = add_child measure_el
            (set_attribute (element ''mean'') ''value''
               (lexical_cast (mean uncert_analysis)));
          measure_el = add_child measure_el
            (set_attribute (element ''standard-deviation'') ''value''
               (lexical_cast (sigma uncert_analysis)));
          confidence = element ''confidence-range'';
          confidence = set_attribute confidence ''percentage'' ''95'';
          confidence = set_attribute confidence ''lower-bound''
            (lexical_cast (fst (confidence_interval uncert_analysis)));
          confidence = set_attribute confidence ''upper-bound''
            (lexical_cast (snd (confidence_interval uncert_analysis)));
          measure_el = add_child measure_el confidence;
          quantiles = element ''quantiles'';
          num_bins = num_bins_of (length (distribution uncert_analysis));
          quantiles = set_attribute quantiles ''number'' (lexical_cast_int num_bins);
          quantiles = ReportUncertainty_loop lexical_cast
                        (distribution uncert_analysis) num_bins 0 quantiles
      in add_child measure_el quantiles)"

definition ReportUncertainty ::
  "bool \<Rightarrow> ('d \<Rightarrow> string) \<Rightarrow> string \<Rightarrow> 'd UncertaintyAnalysis \<Rightarrow> Document
     \<Rightarrow> Document outcome" where
  "ReportUncertainty ndebug lexical_cast ft_name uncert_analysis doc =
     (case doc of
        None \<Rightarrow> Undefined ''root->find''
      | Some root \<Rightarrow>
          (let res = find_children ''results'' root
           in if \<not> ndebug \<and> length res \<noteq> 1 then Abort ''res.size() == 1''
           else case res of
             [] \<Rightarrow> Undefined ''res[0]''
           | res0 # res_rest \<Rightarrow>
               add_to_last_calc_time ndebug ''uncertainty''
                 (lexical_cast (ua_p_time uncert_analysis))
                 (update_at [res0]
                    (\<lambda>results.
                       add_child results
                         (ReportUncertainty_measure lexical_cast ft_name uncert_analysis))
                    root)))"

section \<open>The entries as the specification describes them\<close>


text \<open>The quantile entry numbered \<open>i\<close> of a distribution sample: lower bound
  \<open>sample[i-1].boundary\<close>, upper bound \<open>sample[i].boundary\<close>, value \<open>sample[i].value\<close>.\<close>

definition quantile_entry :: "('d \<Rightarrow> string) \<Rightarrow> ('d \<times> 'd) list \<Rightarrow> nat \<Rightarrow> Node" where
  "quantile_entry lexical_cast sample i =
     Element ''quantile''
       [(''number'', lexical_cast_nat i),
        (''mean'', lexical_cast (snd (sample ! i))),
        (''lower-bound'', lexical_cast (fst (sample ! (i - 1)))),
        (''upper-bound'', lexical_cast (fst (sample ! i)))]
       []"

text \<open>The value of an attribute of a node, empty when the attribute is not set, and
  the names of the \<open>calculated-quantity\<close> blocks of a report, in document order.\<close>

definition get_attribute_value :: "Node \<Rightarrow> string \<Rightarrow> string" where
  "get_attribute_value n a = (case map_of (get_attributes n) a of None \<Rightarrow> '''' | Some v \<Rightarrow> v)"

definition calculated_quantities :: "Document \<Rightarrow> string list" where
  "calculated_quantities doc =
     (case doc of
        None \<Rightarrow> []
      | Some root \<Rightarrow>
          map (\<lambda>q. get_attribute_value q ''name'')
            (xpath_nodes [''information'', ''calculated-quantity''] root))"


text \<open>The warnings in the information section of the document that a call returns;
  none when the call does not return.\<close>

definition information_warnings :: "Document outcome \<Rightarrow> Node list option" where
  "information_warnings out =
     (case out of
        Normal (Some root) \<Rightarrow> Some (xpath_nodes [''information'', ''warning''] root)
      | _ \<Rightarrow> None)"

text \<open>The XPath of the calculation-time entries of the performance log.\<close>

abbreviation (input) calc_time_path :: "string list" where
  "calc_time_path \<equiv> [''information'', ''performance'', ''calculation-time'']"

section \<open>Example trees\<close>

text \<open>Concrete trees on which the theorems below are instantiated: a tree with a top
  gate and one intermediate gate, before and after \<open>GatherPrimaryEvents\<close>; a tree
  whose top gate has a basic-event child keyed by the top gate's own identifier;
  and a tree with a child that is neither a gate of the tree nor a primary event,
  with the state that \<open>GatherPrimaryEvents\<close> leaves it in when it is built with
  \<open>NDEBUG\<close>.\<close>

definition example_g1 :: Gate where
  "example_g1 = Gate ''g1'' [(''a'', Primary (Basic (BasicEvent ''a'' ''A''))),
                             (''h'', Primary (HouseEvent ''h'' ''H''))]"

definition example_top :: Gate where
  "example_top = Gate ''top'' [(''a'', Primary (Basic (BasicEvent ''a'' ''A''))),
                               (''g1'', GateEvent example_g1)]"

definition example_tree :: FaultTree where
  "example_tree =
     \<lparr> tree_name = ''ft'', top_event = Some example_top, top_event_id = ''top'',
       inter_events = [(''g1'', example_g1)], primary_events = [], lock = False,
       warnings = '''' \<rparr>"

definition example_finalized :: FaultTree where
  "example_finalized =
     example_tree\<lparr> lock := True,
       primary_events := [(''a'', Some (Basic (BasicEvent ''a'' ''A''))),
                          (''h'', Some (HouseEvent ''h'' ''H''))] \<rparr>"

definition clash_top :: Gate where
  "clash_top = Gate ''top'' [(''e1'', Primary (Basic (BasicEvent ''e1'' ''E1''))),
                             (''top'', Primary (Basic (BasicEvent ''top'' ''Top'')))]"

definition clash_tree :: FaultTree where
  "clash_tree =
     \<lparr> tree_name = ''ft'', top_event = Some clash_top, top_event_id = ''top'',
       inter_events = [], primary_events = [], lock = False, warnings = '''' \<rparr>"

definition clash_finalized :: FaultTree where
  "clash_finalized =
     clash_tree\<lparr> lock := True,
       primary_events := [(''e1'', Some (Basic (BasicEvent ''e1'' ''E1''))),
                          (''top'', Some (Basic (BasicEvent ''top'' ''Top'')))] \<rparr>"

definition undeveloped_top :: Gate where
  "undeveloped_top = Gate ''top'' [(''a'', Primary (Basic (BasicEvent ''a'' ''A''))),
                                   (''x'', PlainEvent ''x'')]"

definition undeveloped_tree :: FaultTree where
  "undeveloped_tree =
     \<lparr> tree_name = ''ft'', top_event = Some undeveloped_top, top_event_id = ''top'',
       inter_events = [(''g1'', example_g1)], primary_events = [], lock = False,
       warnings = '''' \<rparr>"

definition undeveloped_finalized :: FaultTree where
  "undeveloped_finalized =
     undeveloped_tree\<lparr> lock := True,
       primary_events := [(''a'', Some (Basic (BasicEvent ''a'' ''A''))), (''x'', None),
                          (''h'', Some (HouseEvent ''h'' ''H''))] \<rparr>"

section \<open>Example reports\<close>

text \<open>
  Concrete inputs on which the theorems about the reporter are instantiated. In the
  examples a \<open>double\<close> is given by its text, so that the conversion to text is
  \<open>show_text\<close>. \<open>example_report calc_times results\<close> is the report that \<open>SetupReport\<close>
  writes for \<open>example_settings\<close> (all optional analyses off), with the given
  calculation-time entries in its performance log and the given sections under
  \<open>results\<close>. The fault tree analysis has the minimal cut sets \<open>{A, not B}\<close> and
  \<open>{B, not A}\<close>, where \<open>A\<close> is a plain basic event and \<open>B\<close> is a CCF event for the
  members \<open>B1\<close>, \<open>B2\<close> of a group of size 3: each kind of event occurs once as it
  is and once negated.
\<close>

definition show_text :: "string \<Rightarrow> string" where
  "show_text s = s"

definition example_risk_an :: RiskAnalysis where
  "example_risk_an =
     \<lparr> gates_size = 2, basic_events_size = 3, primary_events_size = 4, ccf_groups_size = 1,
       fault_trees_size = 2 \<rparr>"

definition example_settings :: "string Settings" where
  "example_settings =
     \<lparr> limit_order = 20, ccf_analysis = False, probability_analysis = False, approx = ''no'',
       cut_off = ''1e-08'', num_sums = 7, importance_analysis = False,
       uncertainty_analysis = False, trials = 1000 \<rparr>"

definition example_report :: "Node list \<Rightarrow> Node list \<Rightarrow> Node" where
  "example_report calc_times results =
     Element ''report'' []
       [Element ''information'' []
          [Element ''software'' [(''name'', ''SCRAM''), (''version'', ''0.7.0'')] [],
           Element ''time'' [] [TextNode ''2015-Jan-01 00:00:00''],
           Element ''performance'' [] calc_times,
           Element ''calculated-quantity''
             [(''name'', ''Minimal Cut Set Analysis''),
              (''definition'', ''Groups of events sufficient for a top event failure'')] [],
           Element ''calculation-method'' [(''name'', ''MOCUS'')]
             [Element ''limits'' [] [Element ''number-of-basic-events'' [] [TextNode ''20'']]],
           Element ''model-features'' []
             [Element ''gates'' [] [TextNode ''2''],
              Element ''basic-events'' [] [TextNode ''3''],
              Element ''house-events'' [] [TextNode ''1''],
              Element ''ccf-groups'' [] [TextNode ''1''],
              Element ''fault-trees'' [] [TextNode ''2'']]],
        Element ''results'' [] results]"

definition example_fta :: "string FaultTreeAnalysis" where
  "example_fta =
     \<lparr> num_basic_events = 2, min_cut_sets = [[''A'', ''not B''], [''B'', ''not A'']],
       fta_warnings = '''',
       fta_basic_events =
         [(''A'', BasicEvent ''A'' ''A''),
          (''B'', CcfEvent ''B'' ''[B1 B2]'' ''pumps'' [''B1'', ''B2''] 3)],
       analysis_time = ''0.01'' \<rparr>"

definition example_ccf_entry :: Node where
  "example_ccf_entry =
     Element ''ccf-event''
       [(''ccf-group'', ''pumps''), (''order'', ''2''), (''group-size'', ''3'')]
       [Element ''basic-event'' [(''name'', ''B1'')] [],
        Element ''basic-event'' [(''name'', ''B2'')] []]"

definition example_sum_of_products :: "string \<Rightarrow> Node" where
  "example_sum_of_products ft_name =
     Element ''sum-of-products''
       [(''name'', ft_name), (''basic-events'', ''2''), (''products'', ''2'')]
       [Element ''product'' [(''order'', ''2'')]
          [Element ''basic-event'' [(''name'', ''A'')] [],
           Element ''not'' [] [example_ccf_entry]],
        Element ''product'' [(''order'', ''2'')]
          [example_ccf_entry,
           Element ''not'' [] [Element ''basic-event'' [(''name'', ''A'')] []]]]"

definition example_calc_time :: "string \<Rightarrow> Node list \<Rightarrow> Node" where
  "example_calc_time ft_name others =
     Element ''calculation-time'' [(''name'', ft_name)]
       (Element ''minimal-cut-set'' [] [TextNode ''0.01''] # others)"

definition example_pa :: "string ProbabilityAnalysis" where
  "example_pa =
     \<lparr> p_total = ''0.5'', pa_warnings = '''',
       prob_of_min_sets = [([''A'', ''not B''], ''0.3''), ([''B'', ''not A''], ''0.2'')],
       pa_basic_events = [(''A'', BasicEvent ''A'' ''A'')],
       importance = [(''A'', [''0.1'', ''0.2'', ''0.3'', ''0.4'', ''0.5''])],
       pa_p_time = ''0.02'', imp_time = ''0.03'' \<rparr>"

definition example_importance :: "string \<Rightarrow> Node" where
  "example_importance ft_name =
     Element ''importance'' [(''name'', ft_name), (''basic-events'', ''1'')]
       [Element ''basic-event''
          [(''name'', ''A''), (''DIF'', ''0.1''), (''MIF'', ''0.2''), (''CIF'', ''0.3''),
           (''RRW'', ''0.4''), (''RAW'', ''0.5'')] []]"

definition example_ua :: "string UncertaintyAnalysis" where
  "example_ua =
     \<lparr> ua_warnings = '''', mean = ''0.5'', sigma = ''0.1'', confidence_interval = (''0.3'', ''0.7''),
       distribution =
         [(''b0'', ''v0''), (''b1'', ''v1''), (''b2'', ''v2''), (''b3'', ''v3''), (''b4'', ''v4'')],
       ua_p_time = ''0.04'' \<rparr>"

definition example_measure :: "string \<Rightarrow> Node \<Rightarrow> Node" where
  "example_measure ft_name quantiles =
     Element ''measure'' [(''name'', ft_name)]
       [Element ''mean'' [(''value'', ''0.5'')] [],
        Element ''standard-deviation'' [(''value'', ''0.1'')] [],
        Element ''confidence-range''
          [(''percentage'', ''95''), (''lower-bound'', ''0.3''), (''upper-bound'', ''0.7'')] [],
        quantiles]"

definition example_quantiles :: Node where
  "example_quantiles =
     Element ''quantiles'' [(''number'', ''4'')]
       [Element ''quantile''
          [(''number'', ''1''), (''mean'', ''v1''), (''lower-bound'', ''b0''),
           (''upper-bound'', ''b1'')] [],
        Element ''quantile''
          [(''number'', ''2''), (''mean'', ''v2''), (''lower-bound'', ''b1''),
           (''upper-bound'', ''b2'')] [],
        Element ''quantile''
          [(''number'', ''3''), (''mean'', ''v3''), (''lower-bound'', ''b2''),
           (''upper-bound'', ''b3'')] [],
        Element ''quantile''
          [(''number'', ''4''), (''mean'', ''v4''), (''lower-bound'', ''b3''),
           (''upper-bound'', ''b4'')] []]"


text \<open>A distribution sample with \<open>2^31 + 1\<close> points, one more than the bin counter of
  \<open>ReportUncertainty\<close> can count.\<close>

definition big_sample :: "(string \<times> string) list" where
  "big_sample = replicate (2 ^ 31 + 1) (''0'', ''0'')"

definition big_ua :: "string UncertaintyAnalysis" where
  "big_ua = example_ua\<lparr> distribution := big_sample \<rparr>"

section \<open>Properties of the fault tree\<close>

subsection \<open>Containers and the two scanning loops\<close>

lemma map_count_eq_0: "map_count m k = 0 \<longleftrightarrow> k \<notin> fst ` set m"
proof -
  have "map_count m k = 0 \<longleftrightarrow> map_of m k = None"
    by (simp add: map_count_def split: option.split)
  then show ?thesis by (simp add: map_of_eq_None_iff)
qed

lemma keys_map_insert: "fst ` set (map_insert m kv) = insert (fst kv) (fst ` set m)"
proof (cases "map_of m (fst kv)")
  case None
  then show ?thesis by (simp add: map_insert_def)
next
  case (Some v)
  then have "fst kv \<in> fst ` set m"
    using map_of_eq_None_iff [of m "fst kv"] by auto
  with Some show ?thesis by (auto simp: map_insert_def)
qed

lemma GetPrimaryEvents_loop_frame:
  "GetPrimaryEvents_loop nd cs t = Normal t' \<Longrightarrow>
     inter_events t' = inter_events t \<and> top_event t' = top_event t \<and>
     top_event_id t' = top_event_id t \<and> lock t' = lock t"
proof (induction cs arbitrary: t)
  case Nil
  then show ?case by simp
next
  case (Cons it rest)
  then show ?case
    by (fastforce simp: Let_def split: if_splits)
qed

lemma GetPrimaryEvents_loop_keys:
  "GetPrimaryEvents_loop nd cs t = Normal t' \<Longrightarrow>
     fst ` set (primary_events t') =
       fst ` set (primary_events t) \<union> {k \<in> fst ` set cs. k \<notin> fst ` set (inter_events t)}"
proof (induction cs arbitrary: t)
  case Nil
  then show ?case by simp
next
  case (Cons it rest)
  show ?case
  proof (cases "map_count (inter_events t) (fst it) = 0")
    case True
    let ?t1 = "t\<lparr> primary_events :=
      map_insert (primary_events t) (fst it, dynamic_pointer_cast_PrimaryEvent (snd it)) \<rparr>"
    from Cons.prems True have "GetPrimaryEvents_loop nd rest ?t1 = Normal t'"
      by (simp add: Let_def split: if_splits)
    from Cons.IH [OF this] True show ?thesis
      by (auto simp: keys_map_insert map_count_eq_0)
  next
    case False
    with Cons.prems have "GetPrimaryEvents_loop nd rest t = Normal t'" by simp
    from Cons.IH [OF this] False show ?thesis
      by (auto simp: map_count_eq_0)
  qed
qed

lemma GetPrimaryEvents_loop_Abort:
  "c \<in> set cs \<Longrightarrow> fst c \<notin> fst ` set (inter_events t) \<Longrightarrow>
   dynamic_pointer_cast_PrimaryEvent (snd c) = None \<Longrightarrow>
   GetPrimaryEvents_loop False cs t = Abort ''primary_event != 0''"
proof (induction cs arbitrary: t)
  case Nil
  then show ?case by simp
next
  case (Cons it rest)
  show ?case
  proof (cases "c = it")
    case True
    with Cons.prems show ?thesis by (simp add: map_count_eq_0)
  next
    case False
    with Cons.prems have "c \<in> set rest" by simp
    from Cons.IH [OF this] Cons.prems(2,3) show ?thesis
      by (simp add: Let_def)
  qed
qed

lemma GetPrimaryEvents_loop_cases:
  "(\<exists>t'. GetPrimaryEvents_loop False cs t = Normal t') \<or>
   GetPrimaryEvents_loop False cs t = Abort ''primary_event != 0''"
  by (induction cs arbitrary: t) (auto simp: Let_def)

lemma GetPrimaryEvents_loop_no_Throw:
  "GetPrimaryEvents_loop nd cs t \<noteq> Throw e s"
  by (induction cs arbitrary: t) (auto simp: Let_def)

lemma GetPrimaryEvents_loop_ndebug_returns:
  "\<exists>t'. GetPrimaryEvents_loop True cs t = Normal t'"
  by (induction cs arbitrary: t) (auto simp: Let_def)

lemma GatherPrimaryEvents_loop_frame:
  "GatherPrimaryEvents_loop nd gs t = Normal t' \<Longrightarrow>
     inter_events t' = inter_events t \<and> top_event t' = top_event t \<and>
     top_event_id t' = top_event_id t \<and> lock t' = lock t"
proof (induction gs arbitrary: t)
  case Nil
  then show ?case by simp
next
  case (Cons git rest)
  then obtain t1 where t1: "GetPrimaryEvents_loop nd (children (snd git)) t = Normal t1"
    and rest: "GatherPrimaryEvents_loop nd rest t1 = Normal t'"
    by (auto simp: GetPrimaryEvents_def split: outcome.splits)
  from GetPrimaryEvents_loop_frame [OF t1] Cons.IH [OF rest] show ?case by simp
qed

lemma GatherPrimaryEvents_loop_keys:
  "GatherPrimaryEvents_loop nd gs t = Normal t' \<Longrightarrow>
     fst ` set (primary_events t') =
       fst ` set (primary_events t) \<union>
       {k. \<exists>g \<in> snd ` set gs. k \<in> fst ` set (children g) \<and> k \<notin> fst ` set (inter_events t)}"
proof (induction gs arbitrary: t)
  case Nil
  then show ?case by simp
next
  case (Cons git rest)
  then obtain t1 where t1: "GetPrimaryEvents_loop nd (children (snd git)) t = Normal t1"
    and rest: "GatherPrimaryEvents_loop nd rest t1 = Normal t'"
    by (auto simp: GetPrimaryEvents_def split: outcome.splits)
  from GetPrimaryEvents_loop_frame [OF t1] have same: "inter_events t1 = inter_events t"
    by simp
  from GetPrimaryEvents_loop_keys [OF t1] Cons.IH [OF rest] same show ?case
    by auto
qed

lemma GatherPrimaryEvents_loop_Abort:
  "git \<in> set gs \<Longrightarrow> c \<in> set (children (snd git)) \<Longrightarrow>
   fst c \<notin> fst ` set (inter_events t) \<Longrightarrow>
   dynamic_pointer_cast_PrimaryEvent (snd c) = None \<Longrightarrow>
   GatherPrimaryEvents_loop False gs t = Abort ''primary_event != 0''"
proof (induction gs arbitrary: t)
  case Nil
  then show ?case by simp
next
  case (Cons g rest)
  show ?case
  proof (cases "git = g")
    case True
    with Cons.prems GetPrimaryEvents_loop_Abort [of c "children (snd g)" t]
    show ?thesis by (simp add: GetPrimaryEvents_def)
  next
    case False
    with Cons.prems have in_rest: "git \<in> set rest" by simp
    from GetPrimaryEvents_loop_cases [of "children (snd g)" t] show ?thesis
    proof
      assume "\<exists>t1. GetPrimaryEvents_loop False (children (snd g)) t = Normal t1"
      then obtain t1 where t1: "GetPrimaryEvents_loop False (children (snd g)) t = Normal t1" ..
      from GetPrimaryEvents_loop_frame [OF t1] have "inter_events t1 = inter_events t" by simp
      with Cons.IH [OF in_rest Cons.prems(2), of t1] Cons.prems(3,4) t1 show ?thesis
        by (simp add: GetPrimaryEvents_def)
    next
      assume "GetPrimaryEvents_loop False (children (snd g)) t = Abort ''primary_event != 0''"
      then show ?thesis by (simp add: GetPrimaryEvents_def)
    qed
  qed
qed

lemma GatherPrimaryEvents_loop_no_Throw:
  "GatherPrimaryEvents_loop nd gs t \<noteq> Throw e s"
proof (induction gs arbitrary: t)
  case Nil
  then show ?case by simp
next
  case (Cons git rest)
  with GetPrimaryEvents_loop_no_Throw [of nd "children (snd git)" t] show ?case
    by (auto simp: GetPrimaryEvents_def split: outcome.splits)
qed

lemma GatherPrimaryEvents_loop_ndebug_returns:
  "\<exists>t'. GatherPrimaryEvents_loop True gs t = Normal t'"
proof (induction gs arbitrary: t)
  case Nil
  then show ?case by simp
next
  case (Cons git rest)
  from GetPrimaryEvents_loop_ndebug_returns [of "children (snd git)" t]
  obtain t1 where "GetPrimaryEvents_loop True (children (snd git)) t = Normal t1" ..
  with Cons.IH [of t1] show ?case by (simp add: GetPrimaryEvents_def)
qed

subsection \<open>AddGate, call sequences and the example tree\<close>

lemma AddGate_primary_events:
  "AddGate t g = Normal t' \<Longrightarrow> primary_events t' = primary_events t"
  by (auto simp: AddGate_def split: if_splits)

lemma AddGate_all_primary_events:
  "AddGate_all t gs = Normal t' \<Longrightarrow> primary_events t' = primary_events t"
proof (induction gs arbitrary: t)
  case Nil
  then show ?case by simp
next
  case (Cons g gs)
  then obtain t1 where t1: "AddGate t g = Normal t1" and rest: "AddGate_all t1 gs = Normal t'"
    by (auto split: outcome.splits)
  from AddGate_primary_events [OF t1] Cons.IH [OF rest] show ?case by simp
qed

lemma GatherPrimaryEvents_keys:
  assumes "GatherPrimaryEvents nd t = Normal t'"
  shows "set (map fst (primary_events t')) =
           set (map fst (primary_events t)) \<union> set (non_inter_ids t)"
proof -
  let ?t1 = "t\<lparr> lock := True \<rparr>"
  from assms obtain tg t2 where top: "top_event t = Some tg"
    and t2: "GetPrimaryEvents_loop nd (children tg) ?t1 = Normal t2"
    and t': "GatherPrimaryEvents_loop nd (inter_events t2) t2 = Normal t'"
    by (auto simp: GatherPrimaryEvents_def GetPrimaryEvents_def Let_def
             split: outcome.splits option.splits if_splits)
  from GetPrimaryEvents_loop_frame [OF t2] have inter: "inter_events t2 = inter_events t"
    by simp
  from GetPrimaryEvents_loop_keys [OF t2] GatherPrimaryEvents_loop_keys [OF t'] inter top
  show ?thesis
    by (auto simp: non_inter_ids_def one_hop_ids_def tree_gates_def)
qed

lemma GatherPrimaryEvents_lock:
  "GatherPrimaryEvents nd t = Normal t' \<Longrightarrow> lock t'"
proof -
  assume a: "GatherPrimaryEvents nd t = Normal t'"
  let ?t1 = "t\<lparr> lock := True \<rparr>"
  from a obtain tg t2 where t2: "GetPrimaryEvents_loop nd (children tg) ?t1 = Normal t2"
    and t': "GatherPrimaryEvents_loop nd (inter_events t2) t2 = Normal t'"
    by (auto simp: GatherPrimaryEvents_def GetPrimaryEvents_def Let_def
             split: outcome.splits option.splits if_splits)
  from GetPrimaryEvents_loop_frame [OF t2] GatherPrimaryEvents_loop_frame [OF t']
  show "lock t'" by simp
qed

lemma AddGate_unlocked_top:
  assumes "\<not> lock t" and "top_event_id t \<noteq> ''''"
  shows "AddGate t g =
     (if gate_id g = top_event_id t \<or> gate_id g \<in> fst ` set (inter_events t)
      then Throw (ValueError ''Trying to doubly define a gate'') t
      else Normal (t\<lparr> inter_events := inter_events t @ [(gate_id g, g)] \<rparr>))"
proof (cases "gate_id g \<in> fst ` set (inter_events t)")
  case True
  then have "map_count (inter_events t) (gate_id g) \<noteq> 0" by (simp add: map_count_eq_0)
  with assms True show ?thesis by (simp add: AddGate_def)
next
  case False
  then have c: "map_count (inter_events t) (gate_id g) = 0" by (simp add: map_count_eq_0)
  from False have "map_of (inter_events t) (gate_id g) = None"
    by (simp add: map_of_eq_None_iff)
  then have "map_insert (inter_events t) (gate_id g, g) = inter_events t @ [(gate_id g, g)]"
    by (simp add: map_insert_def)
  with assms c False show ?thesis by (simp add: AddGate_def)
qed

lemma AddGate_calls_length:
  "length (AddGate_calls t gs) = length gs"
proof (induction gs arbitrary: t)
  case Nil
  then show ?case by simp
next
  case (Cons g gs)
  have "(\<exists>t'. AddGate t g = Normal t') \<or> (\<exists>e t'. AddGate t g = Throw e t')"
    by (auto simp: AddGate_def)
  with Cons.IH show ?case by auto
qed

lemma AddGate_calls_step:
  assumes "\<not> lock t" and "top_event_id t \<noteq> ''''" and "i < length gs"
  shows "\<exists>s. tree_after ((Normal t # AddGate_calls t gs) ! i) = Some s \<and>
             \<not> lock s \<and> top_event s = top_event t \<and> top_event_id s = top_event_id t \<and>
             AddGate_calls t gs ! i = AddGate s (gs ! i)"
  using assms
proof (induction gs arbitrary: t i)
  case Nil
  then show ?case by simp
next
  case (Cons g gs)
  obtain t1 where t1: "tree_after (AddGate t g) = Some t1" and l1: "\<not> lock t1"
    and top1: "top_event t1 = top_event t" and id1: "top_event_id t1 = top_event_id t"
    and calls: "AddGate_calls t (g # gs) = AddGate t g # AddGate_calls t1 gs"
  proof (cases "gate_id g = top_event_id t \<or> gate_id g \<in> fst ` set (inter_events t)")
    case True
    with Cons.prems(1,2) that [of t] show ?thesis
      by (simp add: AddGate_unlocked_top)
  next
    case False
    with Cons.prems(1,2)
      that [of "t\<lparr> inter_events := inter_events t @ [(gate_id g, g)] \<rparr>"]
    show ?thesis
      by (simp add: AddGate_unlocked_top)
  qed
  show ?case
  proof (cases i)
    case 0
    with Cons.prems show ?thesis by simp
  next
    case (Suc j)
    with Cons.prems have j: "j < length gs" by simp
    from id1 Cons.prems(2) have "top_event_id t1 \<noteq> ''''" by simp
    from Cons.IH [OF l1 this j] obtain s where
      s: "tree_after ((Normal t1 # AddGate_calls t1 gs) ! j) = Some s" and
      inv: "\<not> lock s" "top_event s = top_event t1" "top_event_id s = top_event_id t1" and
      call: "AddGate_calls t1 gs ! j = AddGate s (gs ! j)"
      by blast
    have "tree_after ((Normal t # AddGate_calls t (g # gs)) ! i) = Some s"
    proof (cases j)
      case 0
      with s Suc calls t1 show ?thesis by simp
    next
      case (Suc k)
      with s \<open>i = Suc j\<close> calls show ?thesis by simp
    qed
    with inv call top1 id1 Suc calls show ?thesis by simp
  qed
qed

lemma example_tree_built:
  "AddGate_all (FaultTree_ctor ''ft'') [example_top, example_g1] = Normal example_tree"
  by (simp add: AddGate_def FaultTree_ctor_def example_tree_def example_top_def example_g1_def
        map_count_def map_insert_def)

lemma example_tree_finalized:
  "GatherPrimaryEvents nd example_tree = Normal example_finalized"
  by (simp add: GatherPrimaryEvents_def GetPrimaryEvents_def example_finalized_def
        example_tree_def example_top_def example_g1_def map_count_def map_insert_def)

subsection \<open>A child that is neither a gate of the tree nor a primary event\<close>

lemma GatherPrimaryEvents_no_Throw:
  "GatherPrimaryEvents nd t \<noteq> Throw e s"
proof -
  let ?t1 = "t\<lparr> lock := True \<rparr>"
  have "GetPrimaryEvents nd (top_event ?t1) ?t1 \<noteq> Throw e' s'" for e' s'
  proof (cases "top_event t")
    case None
    then show ?thesis by (simp add: GetPrimaryEvents_def)
  next
    case (Some tg)
    then show ?thesis by (simp add: GetPrimaryEvents_def GetPrimaryEvents_loop_no_Throw)
  qed
  with GatherPrimaryEvents_loop_no_Throw [of nd _ _ e s] show ?thesis
    by (auto simp: GatherPrimaryEvents_def Let_def split: outcome.splits)
qed

lemma GatherPrimaryEvents_assert_fails:
  assumes "top_event t = Some tg"
    and "g = tg \<or> g \<in> snd ` set (inter_events t)"
    and "c \<in> set (children g)"
    and "fst c \<notin> fst ` set (inter_events t)"
    and "dynamic_pointer_cast_PrimaryEvent (snd c) = None"
  shows "GatherPrimaryEvents False t = Abort ''primary_event != 0''"
proof -
  let ?t1 = "t\<lparr> lock := True \<rparr>"
  from assms(2) show ?thesis
  proof
    assume "g = tg"
    with assms GetPrimaryEvents_loop_Abort [of c "children tg" ?t1]
    show ?thesis
      by (simp add: GatherPrimaryEvents_def GetPrimaryEvents_def)
  next
    assume "g \<in> snd ` set (inter_events t)"
    then obtain git where git: "git \<in> set (inter_events t)" and g: "g = snd git" by auto
    from GetPrimaryEvents_loop_cases [of "children tg" ?t1] show ?thesis
    proof
      assume "\<exists>t2. GetPrimaryEvents_loop False (children tg) ?t1 = Normal t2"
      then obtain t2 where t2: "GetPrimaryEvents_loop False (children tg) ?t1 = Normal t2" ..
      from GetPrimaryEvents_loop_frame [OF t2] have inter: "inter_events t2 = inter_events t"
        by simp
      from GatherPrimaryEvents_loop_Abort [of git "inter_events t2" c t2] git g assms(3-5) inter
      have "GatherPrimaryEvents_loop False (inter_events t2) t2 = Abort ''primary_event != 0''"
        by simp
      with t2 assms(1) show ?thesis
        by (simp add: GatherPrimaryEvents_def GetPrimaryEvents_def)
    next
      assume "GetPrimaryEvents_loop False (children tg) ?t1 = Abort ''primary_event != 0''"
      with assms(1) show ?thesis
        by (simp add: GatherPrimaryEvents_def GetPrimaryEvents_def)
    qed
  qed
qed

lemma GatherPrimaryEvents_ndebug_returns:
  assumes "top_event t = Some tg"
  shows "\<exists>t'. GatherPrimaryEvents True t = Normal t'"
proof -
  let ?t1 = "t\<lparr> lock := True \<rparr>"
  from GetPrimaryEvents_loop_ndebug_returns [of "children tg" ?t1]
  obtain t2 where "GetPrimaryEvents_loop True (children tg) ?t1 = Normal t2" ..
  with assms GatherPrimaryEvents_loop_ndebug_returns [of "inter_events t2" t2] show ?thesis
    by (simp add: GatherPrimaryEvents_def GetPrimaryEvents_def)
qed

lemma undeveloped_tree_built:
  "AddGate_all (FaultTree_ctor ''ft'') [undeveloped_top, example_g1] = Normal undeveloped_tree"
  by (simp add: AddGate_def FaultTree_ctor_def undeveloped_tree_def undeveloped_top_def
        example_g1_def map_count_def map_insert_def)

lemma undeveloped_tree_ndebug:
  "GatherPrimaryEvents True undeveloped_tree = Normal undeveloped_finalized"
  by (simp add: GatherPrimaryEvents_def GetPrimaryEvents_def undeveloped_finalized_def
        undeveloped_tree_def undeveloped_top_def example_g1_def map_count_def map_insert_def)

section \<open>The claims about the fault tree\<close>

text \<open>
  Claim C2, as the code has it. For every tree built from a fresh tree by a sequence
  of successful \<open>AddGate\<close> calls, if \<open>GatherPrimaryEvents\<close> returns, the keys of the
  primary-event mapping are exactly the child identifiers one hop below the top
  gate or an intermediate gate that are not keys of the intermediate-gate mapping.
  The top gate's identifier is not excluded: the scan tests membership in
  \<open>inter_events_\<close> only. This holds in either build.
\<close>

theorem GatherPrimaryEvents_non_inter_children:
  assumes "AddGate_all (FaultTree_ctor n) gs = Normal t"
    and "GatherPrimaryEvents ndebug t = Normal t'"
  shows "set (map fst (primary_events t')) = set (non_inter_ids t)"
proof -
  from AddGate_all_primary_events [OF assms(1)] have "primary_events t = []"
    by (simp add: FaultTree_ctor_def)
  with GatherPrimaryEvents_keys [OF assms(2)] show ?thesis by simp
qed

theorem GatherPrimaryEvents_non_inter_children_witness:
  "AddGate_all (FaultTree_ctor ''ft'') [example_top, example_g1] = Normal example_tree \<and>
   GatherPrimaryEvents False example_tree = Normal example_finalized \<and>
   set (map fst (primary_events example_finalized)) = {''a'', ''h''} \<and>
   non_inter_ids example_tree = [''a'', ''a'', ''h'']"
proof -
  have "non_inter_ids example_tree = [''a'', ''a'', ''h'']"
    by (simp add: non_inter_ids_def one_hop_ids_def tree_gates_def example_tree_def
          example_top_def example_g1_def)
  with GatherPrimaryEvents_non_inter_children [OF example_tree_built example_tree_finalized [of False]]
    example_tree_built example_tree_finalized [of False]
  show ?thesis by simp
qed

text \<open>
  The claim as written also excludes the top gate's identifier. A top gate \<open>top\<close>
  with the basic events \<open>e1\<close> and \<open>top\<close> as children is finalized normally, and
  the primary-event mapping then has the keys \<open>e1\<close> and \<open>top\<close>, whereas the only
  child identifier that is no gate identifier of the tree is \<open>e1\<close>.
\<close>

theorem GatherPrimaryEvents_top_id_child_counterexample:
  "AddGate_all (FaultTree_ctor ''ft'') [clash_top] = Normal clash_tree \<and>
   GatherPrimaryEvents False clash_tree = Normal clash_finalized \<and>
   GatherPrimaryEvents True clash_tree = Normal clash_finalized \<and>
   top_event_id clash_tree = ''top'' \<and>
   map fst (primary_events clash_finalized) = [''e1'', ''top''] \<and>
   non_gate_ids clash_tree = [''e1'']"
  by (simp add: AddGate_def FaultTree_ctor_def clash_tree_def clash_top_def clash_finalized_def
        GatherPrimaryEvents_def GetPrimaryEvents_def map_count_def map_insert_def
        non_gate_ids_def one_hop_ids_def tree_gates_def)

text \<open>
  Claim C3, as the code has it. For every sequence of \<open>AddGate\<close> calls on a fresh
  tree whose first gate has a non-empty identifier: every call returns or throws
  (one outcome per call); the first call makes its gate the top gate; and before
  every later call the top gate is still the first gate, and the call throws the
  duplicate-definition error, leaving the tree as it was, when the gate's
  identifier is the top gate's or a key of the intermediate-gate mapping, and
  otherwise returns with the gate added to that mapping under its identifier.
\<close>

theorem AddGate_calls_nonempty_first_id:
  assumes "gate_id g0 \<noteq> ''''"
  shows "length (AddGate_calls (FaultTree_ctor n) (g0 # gs)) = Suc (length gs) \<and>
    AddGate_calls (FaultTree_ctor n) (g0 # gs) ! 0 =
      Normal ((FaultTree_ctor n)\<lparr> top_event := Some g0, top_event_id := gate_id g0 \<rparr>) \<and>
    (\<forall>i < length gs. \<exists>s.
       tree_after (AddGate_calls (FaultTree_ctor n) (g0 # gs) ! i) = Some s \<and>
       top_event s = Some g0 \<and> top_event_id s = gate_id g0 \<and>
       AddGate_calls (FaultTree_ctor n) (g0 # gs) ! Suc i =
         (if gate_id (gs ! i) = gate_id g0 \<or> gate_id (gs ! i) \<in> fst ` set (inter_events s)
          then Throw (ValueError ''Trying to doubly define a gate'') s
          else Normal (s\<lparr> inter_events := inter_events s @ [(gate_id (gs ! i), gs ! i)] \<rparr>)))"
proof -
  let ?t0 = "FaultTree_ctor n"
  let ?t1 = "?t0\<lparr> top_event := Some g0, top_event_id := gate_id g0 \<rparr>"
  have first: "AddGate ?t0 g0 = Normal ?t1"
    by (simp add: AddGate_def FaultTree_ctor_def)
  then have calls: "AddGate_calls ?t0 (g0 # gs) = Normal ?t1 # AddGate_calls ?t1 gs"
    by simp
  have l1: "\<not> lock ?t1" by (simp add: FaultTree_ctor_def)
  have id1: "top_event_id ?t1 \<noteq> ''''" using assms by simp
  have "\<exists>s. tree_after (AddGate_calls ?t0 (g0 # gs) ! i) = Some s \<and>
       top_event s = Some g0 \<and> top_event_id s = gate_id g0 \<and>
       AddGate_calls ?t0 (g0 # gs) ! Suc i =
         (if gate_id (gs ! i) = gate_id g0 \<or> gate_id (gs ! i) \<in> fst ` set (inter_events s)
          then Throw (ValueError ''Trying to doubly define a gate'') s
          else Normal (s\<lparr> inter_events := inter_events s @ [(gate_id (gs ! i), gs ! i)] \<rparr>))"
    if i: "i < length gs" for i
  proof -
    from AddGate_calls_step [OF l1 id1 i] obtain s where
      s: "tree_after ((Normal ?t1 # AddGate_calls ?t1 gs) ! i) = Some s" and
      inv: "\<not> lock s" "top_event s = top_event ?t1" "top_event_id s = top_event_id ?t1" and
      call: "AddGate_calls ?t1 gs ! i = AddGate s (gs ! i)"
      by blast
    from inv id1 have "top_event_id s \<noteq> ''''" by simp
    from AddGate_unlocked_top [OF inv(1) this, of "gs ! i"] s inv call calls
    show ?thesis by simp
  qed
  with calls show ?thesis by (simp add: AddGate_calls_length)
qed

theorem AddGate_calls_nonempty_first_id_witness:
  "gate_id example_top \<noteq> '''' \<and>
   AddGate_calls (FaultTree_ctor ''ft'') [example_top, example_g1, example_g1, example_top] =
     [Normal ((FaultTree_ctor ''ft'')\<lparr> top_event := Some example_top, top_event_id := ''top'' \<rparr>),
      Normal example_tree,
      Throw (ValueError ''Trying to doubly define a gate'') example_tree,
      Throw (ValueError ''Trying to doubly define a gate'') example_tree]"
proof -
  have h: "gate_id example_top \<noteq> ''''" by (simp add: example_top_def)
  have "AddGate_calls (FaultTree_ctor ''ft'') [example_top, example_g1, example_g1, example_top] =
     [Normal ((FaultTree_ctor ''ft'')\<lparr> top_event := Some example_top, top_event_id := ''top'' \<rparr>),
      Normal example_tree,
      Throw (ValueError ''Trying to doubly define a gate'') example_tree,
      Throw (ValueError ''Trying to doubly define a gate'') example_tree]"
    by (simp add: AddGate_def FaultTree_ctor_def example_tree_def example_top_def example_g1_def
        map_count_def map_insert_def)
  moreover have "length (AddGate_calls (FaultTree_ctor ''ft'')
       (example_top # [example_g1, example_g1, example_top])) =
     Suc (length [example_g1, example_g1, example_top])"
    using AddGate_calls_nonempty_first_id [OF h, of "''ft''" "[example_g1, example_g1, example_top]"] by blast
  ultimately show ?thesis using h by blast
qed

text \<open>
  Without the condition on the first identifier the claim fails: the source takes
  the empty top identifier to mean that no top gate is set. After a first gate with
  the empty identifier, a second gate \<open>g1\<close> replaces it as the top gate and is not
  put into the intermediate mapping; and a second gate with the same (empty)
  identifier as the top gate is accepted without any error.
\<close>

theorem AddGate_calls_empty_id_counterexample:
  "AddGate_calls (FaultTree_ctor ''ft'') [Gate '''' [], Gate ''g1'' [], Gate ''g1'' []] =
     [Normal ((FaultTree_ctor ''ft'')\<lparr> top_event := Some (Gate '''' []) \<rparr>),
      Normal ((FaultTree_ctor ''ft'')\<lparr> top_event := Some (Gate ''g1'' []), top_event_id := ''g1'' \<rparr>),
      Throw (ValueError ''Trying to doubly define a gate'')
        ((FaultTree_ctor ''ft'')\<lparr> top_event := Some (Gate ''g1'' []), top_event_id := ''g1'' \<rparr>)] \<and>
   AddGate_calls (FaultTree_ctor ''ft'') [Gate '''' [], Gate '''' []] =
     [Normal ((FaultTree_ctor ''ft'')\<lparr> top_event := Some (Gate '''' []) \<rparr>),
      Normal ((FaultTree_ctor ''ft'')\<lparr> top_event := Some (Gate '''' []) \<rparr>)]"
  by (simp add: AddGate_def FaultTree_ctor_def map_count_def map_insert_def)

text \<open>
  Claim C7: what the code does instead. Take a tree in which a gate (the top gate or
  an intermediate gate) has a child whose identifier is not a key of the
  intermediate-gate mapping and whose event is not a primary event. The claim
  says that \<open>GatherPrimaryEvents\<close> reports this to its caller as an error of a kind
  of its own. The source has only \<open>assert(primary_event != 0)\<close> there, with the
  note that it must change to an exception. So in the build with assertions the
  process is aborted at the failed assertion; in the build with \<open>NDEBUG\<close> the call
  returns as if nothing were wrong, with the child's identifier among the keys of
  the primary-event mapping; and in neither build does any call of
  \<open>GatherPrimaryEvents\<close>, on any tree, throw an exception. The witness is the tree
  with the top gate \<open>top\<close>, whose child \<open>x\<close> is a plain event: with \<open>NDEBUG\<close> a
  null pointer is stored under \<open>x\<close>.
\<close>

theorem GatherPrimaryEvents_undefined_leaf_not_reported:
  assumes "top_event t = Some tg"
    and "g = tg \<or> g \<in> snd ` set (inter_events t)"
    and "c \<in> set (children g)"
    and "fst c \<notin> fst ` set (inter_events t)"
    and "dynamic_pointer_cast_PrimaryEvent (snd c) = None"
  shows "GatherPrimaryEvents False t = Abort ''primary_event != 0'' \<and>
    (\<exists>t'. GatherPrimaryEvents True t = Normal t' \<and> fst c \<in> fst ` set (primary_events t')) \<and>
    (\<forall>ndebug e s. GatherPrimaryEvents ndebug t \<noteq> Throw e s)"
proof (intro conjI allI)
  show "GatherPrimaryEvents False t = Abort ''primary_event != 0''"
    using assms by (rule GatherPrimaryEvents_assert_fails)
next
  from GatherPrimaryEvents_ndebug_returns [OF assms(1)]
  obtain t' where t': "GatherPrimaryEvents True t = Normal t'" ..
  from assms(1,2) have "g \<in> set (tree_gates t)"
    by (auto simp: tree_gates_def)
  with assms(3) have "fst c \<in> set (one_hop_ids t)"
    by (auto simp: one_hop_ids_def)
  with assms(4) have "fst c \<in> set (non_inter_ids t)"
    by (simp add: non_inter_ids_def)
  with GatherPrimaryEvents_keys [OF t'] have "fst c \<in> fst ` set (primary_events t')"
    by auto
  with t' show "\<exists>t'. GatherPrimaryEvents True t = Normal t' \<and> fst c \<in> fst ` set (primary_events t')"
    by blast
next
  fix ndebug e s
  show "GatherPrimaryEvents ndebug t \<noteq> Throw e s"
    by (rule GatherPrimaryEvents_no_Throw)
qed

theorem GatherPrimaryEvents_undefined_leaf_not_reported_witness:
  "AddGate_all (FaultTree_ctor ''ft'') [undeveloped_top, example_g1] = Normal undeveloped_tree \<and>
   top_event undeveloped_tree = Some undeveloped_top \<and>
   (''x'', PlainEvent ''x'') \<in> set (children undeveloped_top) \<and>
   ''x'' \<notin> fst ` set (inter_events undeveloped_tree) \<and>
   dynamic_pointer_cast_PrimaryEvent (PlainEvent ''x'') = None \<and>
   GatherPrimaryEvents False undeveloped_tree = Abort ''primary_event != 0'' \<and>
   tree_after (GatherPrimaryEvents False undeveloped_tree) = None \<and>
   GatherPrimaryEvents True undeveloped_tree = Normal undeveloped_finalized \<and>
   map_of (primary_events undeveloped_finalized) ''x'' = Some None"
proof -
  have 1: "top_event undeveloped_tree = Some undeveloped_top"
    by (simp add: undeveloped_tree_def)
  have 2: "(''x'', PlainEvent ''x'') \<in> set (children undeveloped_top)"
    by (simp add: undeveloped_top_def)
  have 3: "fst (''x'', PlainEvent ''x'') \<notin> fst ` set (inter_events undeveloped_tree)"
    by (simp add: undeveloped_tree_def)
  have 4: "dynamic_pointer_cast_PrimaryEvent (snd (''x'', PlainEvent ''x'')) = None"
    by simp
  have 5: "map_of (primary_events undeveloped_finalized) ''x'' = Some None"
    by (simp add: undeveloped_finalized_def)
  from GatherPrimaryEvents_undefined_leaf_not_reported [OF 1 _ 2 3 4, THEN conjunct1]
  have "GatherPrimaryEvents False undeveloped_tree = Abort ''primary_event != 0''"
    by simp
  with 1 2 3 4 5 undeveloped_tree_built undeveloped_tree_ndebug show ?thesis by simp
qed

text \<open>
  Claim C8. On every tree that \<open>GatherPrimaryEvents\<close> has finalized, in either build,
  \<open>AddGate\<close> throws the locked-tree error for every gate, whatever its identifier,
  and leaves the tree as it is.
\<close>

theorem AddGate_after_GatherPrimaryEvents_locked:
  "GatherPrimaryEvents ndebug t = Normal t' \<Longrightarrow>
   AddGate t' gate = Throw (Error ''The tree is locked. No change is allowed.'') t'"
  using GatherPrimaryEvents_lock [of ndebug t t'] by (simp add: AddGate_def)

theorem AddGate_after_GatherPrimaryEvents_locked_witness:
  "GatherPrimaryEvents False example_tree = Normal example_finalized \<and>
   AddGate example_finalized (Gate ''g2'' []) =
     Throw (Error ''The tree is locked. No change is allowed.'') example_finalized \<and>
   AddGate example_finalized example_g1 =
     Throw (Error ''The tree is locked. No change is allowed.'') example_finalized"
  using AddGate_after_GatherPrimaryEvents_locked [OF example_tree_finalized [of False], of "Gate ''g2'' []"]
    AddGate_after_GatherPrimaryEvents_locked [OF example_tree_finalized [of False], of example_g1]
    example_tree_finalized [of False]
  by simp

text \<open>
  Claim C10. Whenever \<open>AddGate\<close> throws, the tree after the call is the tree before
  the call: top gate, top identifier, intermediate-gate mapping, primary-event
  mapping and lock, and name and warnings as well, are all unchanged. What it
  throws is the locked-tree error or the duplicate-definition error.
\<close>

theorem AddGate_throw_keeps_tree:
  assumes "AddGate t gate = Throw e t'"
  shows "t' = t \<and>
    top_event t' = top_event t \<and> top_event_id t' = top_event_id t \<and>
    inter_events t' = inter_events t \<and> primary_events t' = primary_events t \<and>
    lock t' = lock t \<and>
    (e = Error ''The tree is locked. No change is allowed.'' \<or>
     e = ValueError ''Trying to doubly define a gate'')"
proof (cases "lock t")
  case True
  with assms show ?thesis by (simp add: AddGate_def)
next
  case unlocked: False
  show ?thesis
  proof (cases "top_event_id t = ''''")
    case True
    with unlocked assms show ?thesis by (simp add: AddGate_def)
  next
    case False
    with unlocked assms show ?thesis
      by (cases "map_count (inter_events t) (gate_id gate) \<noteq> 0 \<or> gate_id gate = top_event_id t")
         (simp_all add: AddGate_def)
  qed
qed

theorem AddGate_throw_keeps_tree_witness:
  "AddGate example_tree example_g1 =
     Throw (ValueError ''Trying to doubly define a gate'') example_tree \<and>
   AddGate example_finalized example_g1 =
     Throw (Error ''The tree is locked. No change is allowed.'') example_finalized"
proof -
  have 1: "AddGate example_tree example_g1 =
     Throw (ValueError ''Trying to doubly define a gate'')
       \<lparr> tree_name = ''ft'', top_event = Some example_top, top_event_id = ''top'',
         inter_events = [(''g1'', example_g1)], primary_events = [], lock = False,
         warnings = '''' \<rparr>"
    by (simp add: AddGate_def example_tree_def example_g1_def map_count_def)
  have 2: "AddGate example_finalized example_g1 =
     Throw (Error ''The tree is locked. No change is allowed.'')
       \<lparr> tree_name = ''ft'', top_event = Some example_top, top_event_id = ''top'',
         inter_events = [(''g1'', example_g1)],
         primary_events = [(''a'', Some (Basic (BasicEvent ''a'' ''A''))),
                           (''h'', Some (HouseEvent ''h'' ''H''))],
         lock = True, warnings = '''' \<rparr>"
    by (simp add: AddGate_def example_finalized_def example_tree_def)
  from AddGate_throw_keeps_tree [OF 1, THEN conjunct1]
    AddGate_throw_keeps_tree [OF 2, THEN conjunct1] 1 2
  show ?thesis by simp
qed

section \<open>Properties of documents, pointers and XPath\<close>

subsection \<open>Searching the children\<close>

lemma find_from_mem:
  "j \<in> set (find_from i nm cs) \<longleftrightarrow>
     i \<le> j \<and> j - i < length cs \<and> is_element_named nm (cs ! (j - i))"
proof (induction cs arbitrary: i j)
  case Nil
  then show ?case by simp
next
  case (Cons c cs)
  show ?case
  proof (cases "j = i")
    case True
    then show ?thesis by (simp add: Cons.IH)
  next
    case False
    then have "i \<le> j \<longleftrightarrow> Suc i \<le> j" by auto
    moreover have "Suc i \<le> j \<Longrightarrow> j - i = Suc (j - Suc i)" by simp
    ultimately show ?thesis using False by (auto simp: Cons.IH)
  qed
qed

lemma find_from_distinct: "distinct (find_from i nm cs)"
  by (induction cs arbitrary: i) (auto simp: find_from_mem)

lemma find_from_nodes:
  "map (\<lambda>j. cs ! (j - i)) (find_from i nm cs) = filter (is_element_named nm) cs"
proof (induction cs arbitrary: i)
  case Nil
  then show ?case by simp
next
  case (Cons c cs)
  have "map (\<lambda>j. (c # cs) ! (j - i)) (find_from (Suc i) nm cs) =
        map (\<lambda>j. cs ! (j - Suc i)) (find_from (Suc i) nm cs)"
  proof (rule map_cong [OF refl])
    fix j assume "j \<in> set (find_from (Suc i) nm cs)"
    then have "Suc i \<le> j" by (simp add: find_from_mem)
    then have "j - i = Suc (j - Suc i)" by simp
    then show "(c # cs) ! (j - i) = cs ! (j - Suc i)" by simp
  qed
  with Cons.IH [of "Suc i"] show ?case by simp
qed

lemma find_from_cong:
  "length cs' = length cs \<Longrightarrow>
   (\<And>j. j < length cs \<Longrightarrow> is_element_named nm (cs' ! j) = is_element_named nm (cs ! j)) \<Longrightarrow>
   find_from i nm cs' = find_from i nm cs"
proof (induction cs arbitrary: cs' i)
  case Nil
  then show ?case by simp
next
  case (Cons c cs)
  then obtain c' cs1 where cs': "cs' = c' # cs1" by (cases cs') auto
  with Cons.prems(1) have len: "length cs1 = length cs" by simp
  from Cons.prems(2) [of 0] cs' have hd: "is_element_named nm c' = is_element_named nm c"
    by simp
  have "is_element_named nm (cs1 ! j) = is_element_named nm (cs ! j)" if "j < length cs" for j
    using Cons.prems(2) [of "Suc j"] that cs' by simp
  from Cons.IH [OF len this] hd cs' show ?case by simp
qed

lemma find_children_mem:
  "j \<in> set (find_children nm n) \<longleftrightarrow>
     j < length (get_children n) \<and> is_element_named nm (get_children n ! j)"
  by (simp add: find_children_def find_from_mem)

lemma find_children_distinct: "distinct (find_children nm n)"
  by (simp add: find_children_def find_from_distinct)

lemma find_children_nodes:
  "map ((!) (get_children n)) (find_children nm n) =
     filter (is_element_named nm) (get_children n)"
  using find_from_nodes [of "get_children n" 0 nm] by (simp add: find_children_def)

subsection \<open>Changes that keep the names\<close>

lemma is_element_named_add_child [simp]:
  "is_element_named nm (add_child n c) = is_element_named nm n"
  by (cases n) simp_all

lemma get_children_add_child_Element:
  "is_element_named nm n \<Longrightarrow> get_children (add_child n c) = get_children n @ [c]"
  by (cases n) simp_all

lemma is_element_named_update_at:
  "p \<noteq> [] \<or> (\<forall>m. is_element_named nm (f m) = is_element_named nm m) \<Longrightarrow>
   is_element_named nm (update_at p f n) = is_element_named nm n"
  by (cases p; cases n) auto

lemma get_children_update_at:
  "get_children (update_at (i # p) f n) =
     (get_children n)[i := update_at p f (get_children n ! i)]"
  by (cases n) simp_all

lemma find_children_update_at:
  assumes "p \<noteq> [] \<or> (\<forall>m. is_element_named nm (f m) = is_element_named nm m)"
  shows "find_children nm (update_at (i # p) f n) = find_children nm n"
proof -
  let ?cs = "get_children n"
  have "is_element_named nm (?cs[i := update_at p f (?cs ! i)] ! j) = is_element_named nm (?cs ! j)"
    if "j < length ?cs" for j
    using that is_element_named_update_at [OF assms, of "?cs ! i"]
    by (cases "j = i") simp_all
  then show ?thesis
    unfolding find_children_def get_children_update_at
    by (intro find_from_cong) simp_all
qed

subsection \<open>Paths found by an XPath\<close>

lemma xpath_find_Cons_mem:
  "p \<in> set (xpath_find (nm # rest) n) \<longleftrightarrow>
     (\<exists>i q. p = i # q \<and> i < length (get_children n) \<and>
            is_element_named nm (get_children n ! i) \<and>
            q \<in> set (xpath_find rest (get_children n ! i)))"
  by (auto simp: find_children_mem)

lemma xpath_find_length:
  "p \<in> set (xpath_find names n) \<Longrightarrow> length p = length names"
proof (induction names arbitrary: p n)
  case Nil
  then show ?case by simp
next
  case (Cons nm rest)
  from Cons.prems obtain i q where "p = i # q"
    and "q \<in> set (xpath_find rest (get_children n ! i))"
    unfolding xpath_find_Cons_mem by blast
  with Cons.IH show ?case by simp
qed

lemma distinct_concat_heads:
  "distinct is \<Longrightarrow> (\<And>i. i \<in> set is \<Longrightarrow> distinct (X i)) \<Longrightarrow>
   distinct (concat (map (\<lambda>i. map ((#) i) (X i)) is))"
proof (induction "is")
  case Nil
  then show ?case by simp
next
  case (Cons i "is")
  then show ?case by (auto simp: distinct_map)
qed

lemma xpath_find_distinct: "distinct (xpath_find names n)"
proof (induction names arbitrary: n)
  case Nil
  then show ?case by simp
next
  case (Cons nm rest)
  show ?case
    unfolding xpath_find.simps
    by (rule distinct_concat_heads) (simp_all add: find_children_distinct Cons.IH)
qed

lemma xpath_nodes_paths:
  "xpath_nodes names n = map (\<lambda>p. the (get_at p n)) (xpath_find names n)"
proof (induction names arbitrary: n)
  case Nil
  then show ?case by simp
next
  case (Cons nm rest)
  let ?cs = "get_children n"
  have "map (\<lambda>p. the (get_at p n)) (xpath_find (nm # rest) n) =
        concat (map (\<lambda>i. map (\<lambda>q. the (get_at (i # q) n)) (xpath_find rest (?cs ! i)))
                  (find_children nm n))"
    by (simp add: map_concat comp_def)
  also have "\<dots> = concat (map (\<lambda>i. xpath_nodes rest (?cs ! i)) (find_children nm n))"
  proof (rule arg_cong [where f = concat], rule map_cong [OF refl])
    fix i assume "i \<in> set (find_children nm n)"
    then have "i < length ?cs" by (simp add: find_children_mem)
    then show "map (\<lambda>q. the (get_at (i # q) n)) (xpath_find rest (?cs ! i)) =
               xpath_nodes rest (?cs ! i)"
      by (simp add: Cons.IH)
  qed
  also have "\<dots> = concat (map (xpath_nodes rest) (map ((!) ?cs) (find_children nm n)))"
    by (simp add: comp_def)
  also have "\<dots> = xpath_nodes (nm # rest) n"
    by (simp add: find_children_nodes)
  finally show ?case by simp
qed

subsection \<open>Reading after a change through a pointer\<close>

lemma get_at_update_at_same:
  "get_at p (update_at p f n) = map_option f (get_at p n)"
proof (induction p arbitrary: n)
  case Nil
  then show ?case by simp
next
  case (Cons i p)
  show ?case
    by (cases n) (simp_all add: Cons.IH)
qed

lemma get_at_update_at_other_head:
  "i \<noteq> j \<Longrightarrow> get_at (j # q) (update_at (i # p) f n) = get_at (j # q) n"
  by (cases n) simp_all

lemma get_at_update_at_other:
  "length q = length p \<Longrightarrow> q \<noteq> p \<Longrightarrow> get_at q (update_at p f n) = get_at q n"
proof (induction p arbitrary: q n)
  case Nil
  then show ?case by simp
next
  case (Cons i p)
  then obtain j q' where q: "q = j # q'" by (cases q) auto
  show ?case
  proof (cases "i = j")
    case False
    show ?thesis unfolding q by (rule get_at_update_at_other_head [OF False])
  next
    case True
    with Cons.prems q have "length q' = length p" "q' \<noteq> p" by simp_all
    from Cons.IH [OF this] True q show ?thesis
      by (cases n) simp_all
  qed
qed

lemma xpath_find_update_at:
  assumes "\<And>nm m. is_element_named nm (f m) = is_element_named nm m"
  shows "length names \<le> length p \<Longrightarrow> xpath_find names (update_at p f n) = xpath_find names n"
proof (induction names arbitrary: p n)
  case Nil
  then show ?case by simp
next
  case (Cons nm rest)
  then obtain i q where p: "p = i # q" by (cases p) auto
  with Cons.prems have len: "length rest \<le> length q" by simp
  let ?cs = "get_children n"
  have same: "find_children nm (update_at (i # q) f n) = find_children nm n"
    by (rule find_children_update_at) (simp add: assms)
  have "xpath_find rest (get_children (update_at (i # q) f n) ! j) = xpath_find rest (?cs ! j)"
    if "j < length ?cs" for j
    using that Cons.IH [OF len, of "?cs ! i"]
    by (cases "j = i") (simp_all add: get_children_update_at del: update_at.simps)
  then show ?case
    unfolding p xpath_find.simps same
    by (intro arg_cong [where f = concat] map_cong refl) (simp add: find_children_mem)
qed

lemma filter_list_update_neither:
  "\<not> P y \<Longrightarrow> (i < length xs \<Longrightarrow> \<not> P (xs ! i)) \<Longrightarrow> filter P (xs[i := y]) = filter P xs"
proof (induction xs arbitrary: i)
  case Nil
  then show ?case by simp
next
  case (Cons x xs)
  then show ?case by (cases i) auto
qed

lemma xpath_nodes_update_at_other_name:
  assumes "i < length (get_children n) \<Longrightarrow> \<not> is_element_named nm (get_children n ! i)"
    and "p \<noteq> [] \<or> (\<forall>m. is_element_named nm (f m) = is_element_named nm m)"
  shows "xpath_nodes (nm # rest) (update_at (i # p) f n) = xpath_nodes (nm # rest) n"
proof -
  let ?cs = "get_children n"
  have "filter (is_element_named nm) (?cs[i := update_at p f (?cs ! i)]) =
        filter (is_element_named nm) ?cs"
  proof (cases "i < length ?cs")
    case True
    with assms show ?thesis
      by (intro filter_list_update_neither) (simp_all add: is_element_named_update_at)
  next
    case False
    then show ?thesis by (simp add: list_update_beyond)
  qed
  then show ?thesis by (simp add: get_children_update_at del: update_at.simps)
qed

lemma xpath_find_update_at_other_name:
  assumes "i < length (get_children n) \<Longrightarrow> \<not> is_element_named nm (get_children n ! i)"
    and "p \<noteq> [] \<or> (\<forall>m. is_element_named nm (f m) = is_element_named nm m)"
  shows "xpath_find (nm # rest) (update_at (i # p) f n) = xpath_find (nm # rest) n"
proof -
  let ?cs = "get_children n"
  have same: "find_children nm (update_at (i # p) f n) = find_children nm n"
    by (rule find_children_update_at) (rule assms(2))
  have "get_children (update_at (i # p) f n) ! j = ?cs ! j"
    if "j \<in> set (find_children nm n)" for j
  proof -
    from that assms(1) have "j \<noteq> i" by (auto simp: find_children_mem)
    then show ?thesis by (simp add: get_children_update_at del: update_at.simps)
  qed
  then show ?thesis
    unfolding xpath_find.simps same
    by (intro arg_cong [where f = concat] map_cong refl) simp
qed

lemma xpath_find_valid:
  "p \<in> set (xpath_find names n) \<Longrightarrow> get_at p n \<noteq> None"
proof (induction names arbitrary: p n)
  case Nil
  then show ?case by simp
next
  case (Cons nm rest)
  from Cons.prems obtain i q where "p = i # q" "i < length (get_children n)"
    and "q \<in> set (xpath_find rest (get_children n ! i))"
    unfolding xpath_find_Cons_mem by blast
  with Cons.IH show ?case by simp
qed

lemma xpath_nodes_single: "xpath_nodes [nm] n = filter (is_element_named nm) (get_children n)"
  by (induction "get_children n" arbitrary: n) (simp_all add: concat_map_singleton)

lemma xpath_nodes_results_add_child:
  assumes "find_children ''results'' root = [r]" and "is_element_named X new"
  shows "xpath_nodes [''results'', X] (update_at [r] (\<lambda>results. add_child results new) root) =
         xpath_nodes [''results'', X] root @ [new]"
proof -
  let ?cs = "get_children root" and ?f = "\<lambda>results. add_child results new"
  let ?root' = "update_at [r] ?f root"
  from assms(1) have "r \<in> set (find_children ''results'' root)" by simp
  then have r: "r < length ?cs" and named: "is_element_named ''results'' (?cs ! r)"
    by (simp_all add: find_children_mem)
  have cs': "get_children ?root' = ?cs[r := add_child (?cs ! r) new]"
    by (simp add: get_children_update_at del: update_at.simps(2))
  have "find_children ''results'' ?root' = [r]"
    using find_children_update_at [of "[]" "''results''" ?f r root] assms(1) by simp
  with find_children_nodes [of ?root' "''results''"] cs' r
  have new_results: "filter (is_element_named ''results'') (get_children ?root') =
      [add_child (?cs ! r) new]"
    by simp
  from find_children_nodes [of root "''results''"] assms(1)
  have old_results: "filter (is_element_named ''results'') ?cs = [?cs ! r]"
    by simp
  have "xpath_nodes [''results'', X] ?root' = xpath_nodes [X] (add_child (?cs ! r) new)"
    using new_results by simp
  also have "\<dots> = xpath_nodes [X] (?cs ! r) @ [new]"
    using assms(2) named
    by (simp add: xpath_nodes_single get_children_add_child_Element del: xpath_nodes.simps)
  also have "xpath_nodes [X] (?cs ! r) = xpath_nodes [''results'', X] root"
    using old_results by simp
  finally show ?thesis .
qed

lemma xpath_nodes_results_update_information:
  assumes "p \<in> set (xpath_find (''information'' # names) root)" and "names \<noteq> []"
  shows "xpath_nodes (''results'' # rest) (update_at p f root) =
         xpath_nodes (''results'' # rest) root"
proof -
  from assms(1) obtain i q where p: "p = i # q"
    and named: "is_element_named ''information'' (get_children root ! i)"
    and q: "q \<in> set (xpath_find names (get_children root ! i))"
    unfolding xpath_find_Cons_mem by blast
  from xpath_find_length [OF q] assms(2) have "q \<noteq> []" by auto
  moreover from named have "\<not> is_element_named ''results'' (get_children root ! i)"
    by (cases "get_children root ! i") auto
  ultimately show ?thesis
    unfolding p by (intro xpath_nodes_update_at_other_name) simp_all
qed

lemma xpath_find_information_update_results:
  assumes "find_children ''results'' root = [r]"
  shows "xpath_find (''information'' # names) (update_at [r] (\<lambda>results. add_child results new) root) =
         xpath_find (''information'' # names) root"
proof -
  from assms have "r \<in> set (find_children ''results'' root)" by simp
  then have "is_element_named ''results'' (get_children root ! r)"
    by (simp add: find_children_mem)
  then have "\<not> is_element_named ''information'' (get_children root ! r)"
    by (cases "get_children root ! r") auto
  then show ?thesis
    by (intro xpath_find_update_at_other_name) simp_all
qed

lemma xpath_nodes_information_update_results:
  assumes "find_children ''results'' root = [r]"
  shows "xpath_nodes (''information'' # names) (update_at [r] (\<lambda>results. add_child results new) root) =
         xpath_nodes (''information'' # names) root"
proof -
  from assms have "r \<in> set (find_children ''results'' root)" by simp
  then have "is_element_named ''results'' (get_children root ! r)"
    by (simp add: find_children_mem)
  then have "\<not> is_element_named ''information'' (get_children root ! r)"
    by (cases "get_children root ! r") auto
  then show ?thesis
    by (intro xpath_nodes_update_at_other_name) simp_all
qed

lemma update_last_path:
  assumes "xpath_find names root \<noteq> []"
    and "\<And>nm m. is_element_named nm (f m) = is_element_named nm m"
  shows "xpath_nodes names (update_at (last (xpath_find names root)) f root) =
         butlast (xpath_nodes names root) @ [f (last (xpath_nodes names root))]"
proof -
  let ?paths = "xpath_find names root"
  let ?p = "last ?paths"
  let ?root' = "update_at ?p f root"
  from assms(1) have p_in: "?p \<in> set ?paths" by (rule last_in_set)
  have len: "length ?p = length names" by (rule xpath_find_length [OF p_in])
  have same: "xpath_find names ?root' = ?paths"
    by (rule xpath_find_update_at) (simp_all add: assms(2) len)
  have parts: "?paths = butlast ?paths @ [?p]"
    using assms(1) by simp
  have "distinct (butlast ?paths @ [?p])"
    using xpath_find_distinct [of names root] parts by simp
  then have notin: "?p \<notin> set (butlast ?paths)" by simp
  have front: "map (\<lambda>q. the (get_at q ?root')) (butlast ?paths) =
               map (\<lambda>q. the (get_at q root)) (butlast ?paths)"
  proof (rule map_cong [OF refl])
    fix q assume q: "q \<in> set (butlast ?paths)"
    then have "q \<in> set ?paths" by (rule in_set_butlastD)
    then have "length q = length ?p" using len by (simp add: xpath_find_length)
    moreover from q notin have "q \<noteq> ?p" by auto
    ultimately show "the (get_at q ?root') = the (get_at q root)"
      by (simp add: get_at_update_at_other)
  qed
  from xpath_find_valid [OF p_in] obtain m where m: "get_at ?p root = Some m" by auto
  then have at_last: "the (get_at ?p ?root') = f (the (get_at ?p root))"
    by (simp add: get_at_update_at_same)
  have "xpath_nodes names ?root' = map (\<lambda>q. the (get_at q ?root')) (butlast ?paths @ [?p])"
    using same parts by (simp add: xpath_nodes_paths)
  also have "\<dots> = map (\<lambda>q. the (get_at q root)) (butlast ?paths) @ [f (the (get_at ?p root))]"
    using front at_last by simp
  also have "\<dots> = butlast (xpath_nodes names root) @ [f (last (xpath_nodes names root))]"
    using assms(1) by (simp add: xpath_nodes_paths map_butlast last_map)
  finally show ?thesis .
qed

lemma add_to_last_calc_time_Normal:
  assumes "add_to_last_calc_time nd child_name txt root = Normal doc'"
  shows "\<exists>root'. doc' = Some root' \<and> xpath_nodes calc_time_path root \<noteq> [] \<and>
           xpath_nodes calc_time_path root' =
             butlast (xpath_nodes calc_time_path root) @
             [add_child (last (xpath_nodes calc_time_path root))
                (Element child_name [] [TextNode txt])] \<and>
           (\<forall>rest. xpath_nodes (''results'' # rest) root' = xpath_nodes (''results'' # rest) root)"
proof -
  let ?paths = "xpath_find calc_time_path root"
  let ?f = "\<lambda>calc_time. add_child calc_time (add_child_text (element child_name) txt)"
  let ?root' = "update_at (last ?paths) ?f root"
  from assms have ne: "?paths \<noteq> []" and doc': "doc' = Some ?root'"
    by (auto simp: add_to_last_calc_time_def Let_def split: if_splits)
  have entry: "add_child_text (element child_name) txt = Element child_name [] [TextNode txt]"
    by (simp add: add_child_text_def element_def)
  have nodes: "xpath_nodes calc_time_path ?root' =
      butlast (xpath_nodes calc_time_path root) @ [?f (last (xpath_nodes calc_time_path root))]"
    by (rule update_last_path [OF ne]) simp
  from ne have "last ?paths \<in> set ?paths" by (rule last_in_set)
  then have results: "xpath_nodes (''results'' # rest) ?root' = xpath_nodes (''results'' # rest) root"
    for rest
    by (rule xpath_nodes_results_update_information) simp
  have "xpath_nodes calc_time_path root = map (\<lambda>p. the (get_at p root)) ?paths"
    by (rule xpath_nodes_paths)
  with ne have "xpath_nodes calc_time_path root \<noteq> []"
    by (simp del: xpath_find.simps xpath_nodes.simps)
  with doc' nodes results entry show ?thesis by simp
qed

section \<open>The bin counter of ReportUncertainty\<close>

lemma num_bins_of_zero: "num_bins_of 0 = - 1"
proof -
  have "sint (ucast (- 1 :: 64 word) :: 32 word) = - 1" by code_simp
  then show ?thesis by (simp add: num_bins_of_def)
qed

lemma num_bins_of_Suc:
  assumes "k < 2 ^ 31"
  shows "num_bins_of (Suc k) = int k"
proof -
  have "(word_of_nat (Suc k) :: 64 word) - 1 = word_of_nat k"
    by simp
  moreover have "k < 2 ^ 64"
    using assms by (rule less_trans) simp
  then have "uint (word_of_nat k :: 64 word) = int k"
    by (simp add: unsigned_of_nat take_bit_nat_eq_self)
  moreover have "signed_take_bit 31 (int k) = int k"
    using assms by (intro signed_take_bit_int_eq_self) simp_all
  ultimately show ?thesis
    by (simp add: num_bins_of_def signed_ucast_eq)
qed

lemma num_bins_of_small: "n \<le> 2 ^ 31 \<Longrightarrow> num_bins_of n = int n - 1"
  by (cases n) (simp_all add: num_bins_of_zero num_bins_of_Suc)

lemma num_bins_of_big: "num_bins_of (2 ^ 31 + 1) = - 2147483648"
proof -
  have "(word_of_nat (2 ^ 31 + 1) :: 64 word) - 1 = 2147483648"
    by simp
  moreover have "sint (ucast (2147483648 :: 64 word) :: 32 word) = - 2147483648"
    by code_simp
  ultimately show ?thesis by (simp add: num_bins_of_def)
qed

lemma num_bins_of_less:
  assumes "0 \<le> i" and "i < num_bins_of n"
  shows "nat (i + 1) < n"
proof (cases n)
  case 0
  with assms show ?thesis by (simp add: num_bins_of_zero)
next
  case (Suc k)
  let ?x = "uint (word_of_nat k :: 64 word)"
  have w: "(word_of_nat n :: 64 word) - 1 = word_of_nat k"
    by (simp add: Suc)
  then have nb: "num_bins_of n = signed_take_bit 31 ?x"
    by (simp add: num_bins_of_def signed_ucast_eq)
  with assms have "0 \<le> signed_take_bit 31 ?x" by linarith
  then have "\<not> bit ?x 31" by simp
  then have "signed_take_bit 31 ?x = take_bit 31 ?x"
    by (rule signed_take_bit_eq_if_positive)
  moreover have "take_bit 31 ?x \<le> ?x"
    by (simp add: take_bit_int_less_eq_self_iff)
  moreover have "?x \<le> int k"
    by (simp add: unsigned_of_nat take_bit_nat_less_eq_self)
  ultimately have "num_bins_of n \<le> int k" using nb by simp
  with assms Suc show ?thesis by simp
qed

section \<open>Properties of the reporter\<close>

lemma xpath_nodes_last_name:
  "m \<in> set (xpath_nodes (names @ [nm]) n) \<Longrightarrow> is_element_named nm m"
proof (induction names arbitrary: n)
  case Nil
  then show ?case by (simp add: xpath_nodes_single del: xpath_nodes.simps)
next
  case (Cons a names)
  then show ?case by auto
qed

lemma xpath_nodes_append:
  "xpath_nodes (a @ b) n = concat (map (xpath_nodes b) (xpath_nodes a n))"
proof (induction a arbitrary: n)
  case Nil
  then show ?case by simp
next
  case (Cons nm a)
  have "concat (map (\<lambda>m. concat (map (xpath_nodes b) (xpath_nodes a m))) ms) =
        concat (map (xpath_nodes b) (concat (map (xpath_nodes a) ms)))" for ms
    by (induction ms) simp_all
  moreover have "xpath_nodes (a @ b) = (\<lambda>m. concat (map (xpath_nodes b) (xpath_nodes a m)))"
    by (rule ext) (rule Cons.IH)
  ultimately show ?case by simp
qed

lemma xpath_nodes_add_child_single:
  assumes "xpath_find (names @ [nm]) root = [p]" and "is_element_named X new"
  shows "xpath_nodes (names @ [nm, X]) (update_at p (\<lambda>n. add_child n new) root) =
         xpath_nodes (names @ [nm, X]) root @ [new]"
proof -
  let ?ns = "names @ [nm]" and ?f = "\<lambda>n. add_child n new"
  let ?root' = "update_at p ?f root"
  from assms(1) have ne: "xpath_find ?ns root \<noteq> []" and p: "last (xpath_find ?ns root) = p"
    by simp_all
  have one: "xpath_nodes ?ns root = [the (get_at p root)]"
    using assms(1) by (simp add: xpath_nodes_paths del: xpath_nodes.simps xpath_find.simps)
  let ?m = "the (get_at p root)"
  from update_last_path [OF ne, of ?f] p one
  have one': "xpath_nodes ?ns ?root' = [add_child ?m new]"
    by (simp del: xpath_nodes.simps xpath_find.simps)
  from one have "?m \<in> set (xpath_nodes ?ns root)" by simp
  then have named: "is_element_named nm ?m" by (rule xpath_nodes_last_name)
  have "xpath_nodes (?ns @ [X]) ?root' = concat (map (xpath_nodes [X]) (xpath_nodes ?ns ?root'))"
    by (rule xpath_nodes_append)
  also have "\<dots> = xpath_nodes [X] (add_child ?m new)"
    unfolding one' by (simp del: xpath_nodes.simps)
  also have "\<dots> = xpath_nodes [X] ?m @ [new]"
    using assms(2) named
    by (simp add: xpath_nodes_single get_children_add_child_Element del: xpath_nodes.simps)
  also have "xpath_nodes [X] ?m = concat (map (xpath_nodes [X]) (xpath_nodes ?ns root))"
    unfolding one by (simp del: xpath_nodes.simps)
  also have "\<dots> = xpath_nodes (?ns @ [X]) root"
    by (rule xpath_nodes_append [symmetric])
  finally show ?thesis by simp
qed

subsection \<open>The writers in the build with assertions\<close>

text \<open>With assertions, a writer goes on only when the node set it asserts about has
  the one node (or, for the calculation-time entries, at least one node).\<close>

lemma add_to_last_calc_time_ndebug:
  "add_to_last_calc_time False child_name txt root = Normal doc' \<Longrightarrow>
   add_to_last_calc_time nd child_name txt root = Normal doc'"
  by (auto simp: add_to_last_calc_time_def Let_def split: if_splits)

lemma ReportUncertainty_assert:
  "ReportUncertainty False lc ft_name ua doc =
     (case doc of
        None \<Rightarrow> Undefined ''root->find''
      | Some root \<Rightarrow>
          (case find_children ''results'' root of
             [res0] \<Rightarrow>
               add_to_last_calc_time False ''uncertainty'' (lc (ua_p_time ua))
                 (update_at [res0]
                    (\<lambda>results. add_child results (ReportUncertainty_measure lc ft_name ua)) root)
           | _ \<Rightarrow> Abort ''res.size() == 1''))"
  by (simp add: ReportUncertainty_def Let_def split: option.split list.split
        del: update_at.simps)

lemma ReportImportance_assert:
  "ReportImportance False lc ft_name pa doc =
     (case doc of
        None \<Rightarrow> Undefined ''root->find''
      | Some root \<Rightarrow>
          (case find_children ''results'' root of
             [res0] \<Rightarrow>
               (case ReportImportance_importance lc ft_name pa of
                  Normal importance_el \<Rightarrow>
                    add_to_last_calc_time False ''importance'' (lc (imp_time pa))
                      (update_at [res0] (\<lambda>results. add_child results importance_el) root)
                | Throw e n \<Rightarrow> Throw e doc
                | Abort a \<Rightarrow> Abort a
                | Undefined u \<Rightarrow> Undefined u)
           | _ \<Rightarrow> Abort ''res.size() == 1''))"
  by (simp add: ReportImportance_def Let_def split: option.split list.split
        del: update_at.simps)

lemma ReportFta_assert:
  "ReportFta False lc ft_name fta pa doc =
     (case doc of
        None \<Rightarrow> Undefined ''root->find''
      | Some root \<Rightarrow>
          (case find_children ''results'' root of
             [res0] \<Rightarrow>
               (case ReportFta_sum_of_products False lc ft_name fta pa of
                  Normal sum_of_products \<Rightarrow>
                    (case xpath_find [''information'', ''performance'']
                            (update_at [res0]
                               (\<lambda>results. add_child results sum_of_products) root) of
                       [perf0] \<Rightarrow>
                         Normal (Some (update_at perf0
                           (\<lambda>performance.
                              add_child performance (ReportFta_calc_time lc ft_name fta pa))
                           (update_at [res0]
                              (\<lambda>results. add_child results sum_of_products) root)))
                     | _ \<Rightarrow> Abort ''perf.size() == 1'')
                | Throw e n \<Rightarrow> Throw e doc
                | Abort a \<Rightarrow> Abort a
                | Undefined u \<Rightarrow> Undefined u)
           | _ \<Rightarrow> Abort ''res.size() == 1''))"
  by (simp add: ReportFta_def Let_def split: option.split list.split outcome.split
        del: update_at.simps xpath_find.simps)

subsection \<open>What each writer does to the document\<close>

lemma ReportUncertainty_Normal:
  assumes "ReportUncertainty False lc ft_name ua doc = Normal doc'"
  shows "\<exists>root root'. doc = Some root \<and> doc' = Some root' \<and>
           xpath_nodes [''results'', ''measure''] root' =
             xpath_nodes [''results'', ''measure''] root @ [ReportUncertainty_measure lc ft_name ua] \<and>
           xpath_nodes calc_time_path root \<noteq> [] \<and>
           xpath_nodes calc_time_path root' =
             butlast (xpath_nodes calc_time_path root) @
             [add_child (last (xpath_nodes calc_time_path root))
                (Element ''uncertainty'' [] [TextNode (lc (ua_p_time ua))])]"
proof -
  let ?m = "ReportUncertainty_measure lc ft_name ua"
  from assms obtain root r where doc: "doc = Some root"
    and r: "find_children ''results'' root = [r]"
    and last: "add_to_last_calc_time False ''uncertainty'' (lc (ua_p_time ua))
                 (update_at [r] (\<lambda>results. add_child results ?m) root) = Normal doc'"
    by (auto simp: ReportUncertainty_assert split: option.splits list.splits
             simp del: update_at.simps)
  let ?root1 = "update_at [r] (\<lambda>results. add_child results ?m) root"
  have named: "is_element_named ''measure'' ?m"
    by (simp add: ReportUncertainty_measure_def Let_def element_def)
  from add_to_last_calc_time_Normal [OF last] obtain root' where doc': "doc' = Some root'"
    and ne: "xpath_nodes calc_time_path ?root1 \<noteq> []"
    and ct: "xpath_nodes calc_time_path root' =
             butlast (xpath_nodes calc_time_path ?root1) @
             [add_child (last (xpath_nodes calc_time_path ?root1))
                (Element ''uncertainty'' [] [TextNode (lc (ua_p_time ua))])]"
    and res: "\<And>rest. xpath_nodes (''results'' # rest) root' = xpath_nodes (''results'' # rest) ?root1"
    by blast
  have same: "xpath_nodes calc_time_path ?root1 = xpath_nodes calc_time_path root"
    by (rule xpath_nodes_information_update_results [OF r])
  have "xpath_nodes [''results'', ''measure''] root' =
        xpath_nodes [''results'', ''measure''] root @ [?m]"
    unfolding res by (rule xpath_nodes_results_add_child [OF r named])
  with doc doc' ne ct same show ?thesis
    by (simp del: xpath_nodes.simps)
qed

lemma ReportImportance_Normal:
  assumes "ReportImportance False lc ft_name pa doc = Normal doc'"
  shows "\<exists>root root'. doc = Some root \<and> doc' = Some root' \<and>
           xpath_nodes calc_time_path root \<noteq> [] \<and>
           xpath_nodes calc_time_path root' =
             butlast (xpath_nodes calc_time_path root) @
             [add_child (last (xpath_nodes calc_time_path root))
                (Element ''importance'' [] [TextNode (lc (imp_time pa))])]"
proof -
  from assms obtain root r m where doc: "doc = Some root"
    and r: "find_children ''results'' root = [r]"
    and last: "add_to_last_calc_time False ''importance'' (lc (imp_time pa))
                 (update_at [r] (\<lambda>results. add_child results m) root) = Normal doc'"
    by (auto simp: ReportImportance_assert split: option.splits list.splits outcome.splits
             simp del: update_at.simps)
  let ?root1 = "update_at [r] (\<lambda>results. add_child results m) root"
  from add_to_last_calc_time_Normal [OF last] obtain root' where doc': "doc' = Some root'"
    and ne: "xpath_nodes calc_time_path ?root1 \<noteq> []"
    and ct: "xpath_nodes calc_time_path root' =
             butlast (xpath_nodes calc_time_path ?root1) @
             [add_child (last (xpath_nodes calc_time_path ?root1))
                (Element ''importance'' [] [TextNode (lc (imp_time pa))])]"
    by blast
  have same: "xpath_nodes calc_time_path ?root1 = xpath_nodes calc_time_path root"
    by (rule xpath_nodes_information_update_results [OF r])
  with doc doc' ne ct show ?thesis
    by (simp del: xpath_nodes.simps)
qed

lemma ReportFta_products_name:
  "ReportFta_products nd lc fta pa mcs sop = Normal sop' \<Longrightarrow>
   is_element_named nm sop' = is_element_named nm sop"
proof (induction mcs arbitrary: sop)
  case Nil
  then show ?case by simp
next
  case (Cons cs mcs)
  then obtain product where "ReportFta_products nd lc fta pa mcs (add_child sop product) = Normal sop'"
    by (auto split: outcome.splits)
  from Cons.IH [OF this] show ?case by simp
qed

lemma ReportFta_sum_of_products_name:
  assumes "ReportFta_sum_of_products nd lc ft_name fta pa = Normal sop"
  shows "is_element_named ''sum-of-products'' sop"
proof -
  from assms obtain sop0 where "ReportFta_products nd lc fta pa (min_cut_sets fta) sop0 = Normal sop"
    and "is_element_named ''sum-of-products'' sop0"
    by (auto simp: ReportFta_sum_of_products_def Let_def element_def add_child_text_def
             split: option.splits if_splits)
  with ReportFta_products_name show ?thesis by blast
qed

lemma ReportFta_calc_time_eq:
  "ReportFta_calc_time lc ft_name fta pa =
     Element ''calculation-time'' [(''name'', ft_name)]
       (Element ''minimal-cut-set'' [] [TextNode (lc (analysis_time fta))] #
        (case pa of None \<Rightarrow> []
         | Some p \<Rightarrow> [Element ''probability'' [] [TextNode (lc (pa_p_time p))]]))"
  by (simp add: ReportFta_calc_time_def Let_def element_def add_child_text_def
           split: option.splits)

lemma ReportFta_Normal:
  assumes "ReportFta False lc ft_name fta pa doc = Normal doc'"
  shows "\<exists>root root' sop. doc = Some root \<and> doc' = Some root' \<and>
           ReportFta_sum_of_products False lc ft_name fta pa = Normal sop \<and>
           xpath_nodes [''results'', ''sum-of-products''] root' =
             xpath_nodes [''results'', ''sum-of-products''] root @ [sop] \<and>
           xpath_nodes calc_time_path root' =
             xpath_nodes calc_time_path root @ [ReportFta_calc_time lc ft_name fta pa]"
proof -
  let ?ct = "ReportFta_calc_time lc ft_name fta pa"
  from assms obtain root r sop where doc: "doc = Some root"
    and r: "find_children ''results'' root = [r]"
    and sop: "ReportFta_sum_of_products False lc ft_name fta pa = Normal sop"
    and rest: "(case xpath_find [''information'', ''performance'']
                      (update_at [r] (\<lambda>results. add_child results sop) root) of
                 [perf0] \<Rightarrow>
                   Normal (Some (update_at perf0 (\<lambda>performance. add_child performance ?ct)
                     (update_at [r] (\<lambda>results. add_child results sop) root)))
               | _ \<Rightarrow> Abort ''perf.size() == 1'') = Normal doc'"
    by (auto simp: ReportFta_assert split: option.splits list.splits outcome.splits
             simp del: xpath_find.simps update_at.simps)
  let ?root1 = "update_at [r] (\<lambda>results. add_child results sop) root"
  from rest obtain p where p: "xpath_find ([''information''] @ [''performance'']) ?root1 = [p]"
    and doc': "doc' = Some (update_at p (\<lambda>performance. add_child performance ?ct) ?root1)"
    by (auto split: list.splits simp del: xpath_find.simps update_at.simps)
  let ?root' = "update_at p (\<lambda>performance. add_child performance ?ct) ?root1"
  have ct_named: "is_element_named ''calculation-time'' ?ct"
    by (simp add: ReportFta_calc_time_eq)
  from xpath_nodes_add_child_single [OF p ct_named]
  have "xpath_nodes calc_time_path ?root' = xpath_nodes calc_time_path ?root1 @ [?ct]"
    by (simp del: xpath_nodes.simps update_at.simps)
  also have "xpath_nodes calc_time_path ?root1 = xpath_nodes calc_time_path root"
    by (rule xpath_nodes_information_update_results [OF r])
  finally have ct: "xpath_nodes calc_time_path ?root' = xpath_nodes calc_time_path root @ [?ct]" .
  from p have "p \<in> set (xpath_find (''information'' # [''performance'']) ?root1)"
    by (simp del: xpath_find.simps update_at.simps)
  then have "xpath_nodes (''results'' # [''sum-of-products'']) ?root' =
             xpath_nodes (''results'' # [''sum-of-products'']) ?root1"
    by (rule xpath_nodes_results_update_information) simp
  also have "\<dots> = xpath_nodes [''results'', ''sum-of-products''] root @ [sop]"
    by (rule xpath_nodes_results_add_child [OF r ReportFta_sum_of_products_name [OF sop]])
  finally have "xpath_nodes [''results'', ''sum-of-products''] ?root' =
                xpath_nodes [''results'', ''sum-of-products''] root @ [sop]" .
  with doc doc' sop ct show ?thesis
    by (simp del: xpath_nodes.simps update_at.simps)
qed

subsection \<open>Splitting a member name\<close>

lemma split_loop_first:
  "\<exists>rest. split_loop False cur s = (cur @ takeWhile (\<lambda>c. c \<noteq> CHR '' '') s) # rest"
proof (induction s arbitrary: cur)
  case Nil
  then show ?case by simp
next
  case (Cons c s)
  show ?case
  proof (cases "c = CHR '' ''")
    case True
    then show ?thesis by simp
  next
    case False
    with Cons.IH [of "cur @ [c]"] show ?thesis by simp
  qed
qed

lemma split_first: "\<exists>rest. split s = takeWhile (\<lambda>c. c \<noteq> CHR '' '') s # rest"
  using split_loop_first [of "[]" s] by (simp add: split_def)



subsection \<open>The entries of a product\<close>







subsection \<open>The quantile entries of a measure\<close>

lemma lexical_cast_int_nat: "lexical_cast_int (int k) = lexical_cast_nat k"
  by (simp add: lexical_cast_int_def)

lemma ReportUncertainty_loop_eq:
  "0 \<le> i \<Longrightarrow>
   ReportUncertainty_loop lc dist nb i (Element nm as cs) =
     Element nm as (cs @ map (quantile_entry lc dist) [nat i + 1 ..< nat nb + 1])"
proof (induction lc dist nb i "Element nm as cs" arbitrary: cs rule: ReportUncertainty_loop.induct)
  case (1 lc dist nb i)
  show ?case
  proof (cases "i < nb")
    case False
    with "1.prems" have "nat nb + 1 \<le> nat i + 1" by simp
    with False show ?thesis
      by (simp add: ReportUncertainty_loop.simps [of lc dist nb i])
  next
    case True
    let ?quant = "quantile_entry lc dist (nat i + 1)"
    have quant: "set_attribute (set_attribute (set_attribute (set_attribute (element ''quantile'')
        ''number'' (lexical_cast_int (i + 1))) ''mean'' (lc (snd (dist ! nat (i + 1)))))
        ''lower-bound'' (lc (fst (dist ! nat i)))) ''upper-bound'' (lc (fst (dist ! nat (i + 1))))
        = ?quant"
    proof -
      from "1.prems" have "i + 1 = int (nat i + 1)" by simp
      then have "lexical_cast_int (i + 1) = lexical_cast_nat (nat i + 1)"
        by (simp only: lexical_cast_int_nat)
      moreover from "1.prems" have "nat (i + 1) = nat i + 1" by simp
      ultimately show ?thesis
        by (simp add: quantile_entry_def element_def)
    qed
    from "1.prems" have "0 \<le> i + 1" by simp
    from "1.hyps" [OF True refl refl refl refl refl refl refl refl _ this, of "cs @ [?quant]"] quant
    have "ReportUncertainty_loop lc dist nb (i + 1) (Element nm as (cs @ [?quant])) =
          Element nm as ((cs @ [?quant]) @ map (quantile_entry lc dist) [nat (i + 1) + 1 ..< nat nb + 1])"
      by (simp add: Let_def del: upt_Suc)
    moreover from True "1.prems" have "nat i < nat nb" by linarith
    then have "[nat i + 1 ..< nat nb + 1] = (nat i + 1) # [nat i + 1 + 1 ..< nat nb + 1]"
      by (simp add: upt_conv_Cons del: upt_Suc)
    moreover from "1.prems" have "nat (i + 1) = nat i + 1" by simp
    ultimately show ?thesis using True quant
      by (simp add: ReportUncertainty_loop.simps [of lc dist nb i] Let_def del: upt_Suc)
  qed
qed

lemma ReportUncertainty_measure_eq:
  "ReportUncertainty_measure lc ft_name ua =
     Element ''measure'' [(''name'', ft_name)]
       ((if ua_warnings ua \<noteq> '''' then [Element ''warning'' [] [TextNode (ua_warnings ua)]] else []) @
        [Element ''mean'' [(''value'', lc (mean ua))] [],
         Element ''standard-deviation'' [(''value'', lc (sigma ua))] [],
         Element ''confidence-range''
           [(''percentage'', ''95''), (''lower-bound'', lc (fst (confidence_interval ua))),
            (''upper-bound'', lc (snd (confidence_interval ua)))] [],
         Element ''quantiles''
           [(''number'', lexical_cast_int (num_bins_of (length (distribution ua))))]
           (map (quantile_entry lc (distribution ua))
              [1 ..< nat (num_bins_of (length (distribution ua))) + 1])])"
  by (simp add: ReportUncertainty_measure_def Let_def element_def add_child_text_def
        ReportUncertainty_loop_eq del: upt_Suc)

lemma ReportUncertainty_measure_quantiles:
  "xpath_nodes [''quantiles'', ''quantile''] (ReportUncertainty_measure lc ft_name ua) =
     map (quantile_entry lc (distribution ua))
       [1 ..< nat (num_bins_of (length (distribution ua))) + 1]"
proof -
  have "filter (is_element_named ''quantile'') (map (quantile_entry lc d) ks) =
        map (quantile_entry lc d) ks" for d :: "('a \<times> 'a) list" and ks
    by (induction ks) (simp_all add: quantile_entry_def)
  then show ?thesis
    unfolding ReportUncertainty_measure_eq by (simp del: upt_Suc)
qed


lemma ReportUncertainty_returns:
  assumes "find_children ''results'' root = [r]"
    and "xpath_nodes calc_time_path root \<noteq> []"
  shows "\<exists>doc'. ReportUncertainty False lc ft_name ua (Some root) = Normal doc'"
proof -
  let ?root1 = "update_at [r]
     (\<lambda>results. add_child results (ReportUncertainty_measure lc ft_name ua)) root"
  have "xpath_nodes calc_time_path root = map (\<lambda>p. the (get_at p root)) (xpath_find calc_time_path root)"
    by (rule xpath_nodes_paths)
  with assms(2) have "xpath_find calc_time_path root \<noteq> []"
    by (auto simp del: xpath_find.simps xpath_nodes.simps)
  moreover have "xpath_find calc_time_path ?root1 = xpath_find calc_time_path root"
    by (rule xpath_find_information_update_results [OF assms(1)])
  ultimately have "xpath_find calc_time_path ?root1 \<noteq> []" by simp
  then have "\<exists>doc'. add_to_last_calc_time False ''uncertainty'' (lc (ua_p_time ua)) ?root1 = Normal doc'"
    by (simp add: add_to_last_calc_time_def Let_def del: xpath_find.simps update_at.simps)
  with assms(1) show ?thesis
    by (simp add: ReportUncertainty_assert del: xpath_find.simps update_at.simps)
qed

subsection \<open>The build with NDEBUG does the same where no assertion fails\<close>

lemma ReportUncertainty_ndebug:
  assumes "ReportUncertainty False lc ft_name ua doc = Normal doc'"
  shows "ReportUncertainty nd lc ft_name ua doc = Normal doc'"
proof -
  from assms obtain root r where doc: "doc = Some root"
    and r: "find_children ''results'' root = [r]"
    and last: "add_to_last_calc_time False ''uncertainty'' (lc (ua_p_time ua))
                 (update_at [r]
                    (\<lambda>results. add_child results (ReportUncertainty_measure lc ft_name ua)) root)
               = Normal doc'"
    by (auto simp: ReportUncertainty_assert split: option.splits list.splits
             simp del: update_at.simps)
  from add_to_last_calc_time_ndebug [OF last, of nd] doc r show ?thesis
    by (simp add: ReportUncertainty_def del: update_at.simps)
qed

lemma ReportImportance_ndebug:
  assumes "ReportImportance False lc ft_name pa doc = Normal doc'"
  shows "ReportImportance nd lc ft_name pa doc = Normal doc'"
proof -
  from assms obtain root r m where doc: "doc = Some root"
    and r: "find_children ''results'' root = [r]"
    and m: "ReportImportance_importance lc ft_name pa = Normal m"
    and last: "add_to_last_calc_time False ''importance'' (lc (imp_time pa))
                 (update_at [r] (\<lambda>results. add_child results m) root) = Normal doc'"
    by (auto simp: ReportImportance_assert split: option.splits list.splits outcome.splits
             simp del: update_at.simps)
  from add_to_last_calc_time_ndebug [OF last, of nd] doc r m show ?thesis
    by (simp add: ReportImportance_def del: update_at.simps)
qed

lemma ReportFta_member_ndebug:
  "ReportFta_member nd be m product = ReportFta_member False be m product"
proof -
  obtain rest where "split m = takeWhile (\<lambda>c. c \<noteq> CHR '' '') m # rest"
    using split_first by blast
  then show ?thesis by (simp add: ReportFta_member_def)
qed

lemma ReportFta_members_ndebug:
  "ReportFta_members nd be ms product = ReportFta_members False be ms product"
  by (induction ms arbitrary: product)
     (simp_all add: ReportFta_member_ndebug [of nd] split: outcome.split)

lemma ReportFta_product_ndebug:
  "ReportFta_product nd lc fta pa it_min = ReportFta_product False lc fta pa it_min"
  by (simp add: ReportFta_product_def Let_def ReportFta_members_ndebug [of nd]
        split: option.split)

lemma ReportFta_products_ndebug:
  "ReportFta_products nd lc fta pa mcs sop = ReportFta_products False lc fta pa mcs sop"
  by (induction mcs arbitrary: sop)
     (simp_all add: ReportFta_product_ndebug [of nd] split: outcome.split)

lemma ReportFta_sum_of_products_ndebug:
  "ReportFta_sum_of_products nd lc ft_name fta pa =
   ReportFta_sum_of_products False lc ft_name fta pa"
  by (simp add: ReportFta_sum_of_products_def Let_def ReportFta_products_ndebug [of nd])

lemma ReportFta_ndebug:
  assumes "ReportFta False lc ft_name fta pa doc = Normal doc'"
  shows "ReportFta nd lc ft_name fta pa doc = Normal doc'"
proof -
  let ?ct = "ReportFta_calc_time lc ft_name fta pa"
  from assms obtain root r sop where doc: "doc = Some root"
    and r: "find_children ''results'' root = [r]"
    and sop: "ReportFta_sum_of_products False lc ft_name fta pa = Normal sop"
    and rest: "(case xpath_find [''information'', ''performance'']
                      (update_at [r] (\<lambda>results. add_child results sop) root) of
                 [perf0] \<Rightarrow>
                   Normal (Some (update_at perf0 (\<lambda>performance. add_child performance ?ct)
                     (update_at [r] (\<lambda>results. add_child results sop) root)))
               | _ \<Rightarrow> Abort ''perf.size() == 1'') = Normal doc'"
    by (auto simp: ReportFta_assert split: option.splits list.splits outcome.splits
             simp del: xpath_find.simps update_at.simps)
  let ?root1 = "update_at [r] (\<lambda>results. add_child results sop) root"
  from rest obtain p where p: "xpath_find [''information'', ''performance''] ?root1 = [p]"
    and doc': "doc' = Some (update_at p (\<lambda>performance. add_child performance ?ct) ?root1)"
    by (auto split: list.splits simp del: xpath_find.simps update_at.simps)
  from sop have "ReportFta_sum_of_products nd lc ft_name fta pa = Normal sop"
    by (simp only: ReportFta_sum_of_products_ndebug [of nd])
  with doc r p doc' show ?thesis
    by (simp add: ReportFta_def Let_def del: xpath_find.simps update_at.simps)
qed

subsection \<open>When ReportFta returns\<close>






lemma ReportOrphans_loop_eq:
  "ReportOrphans_loop orphans out = out @ concat (map (\<lambda>e. primary_orig_id e @ '' '') orphans)"
  by (induction orphans arbitrary: out) simp_all

subsection \<open>The example reports\<close>



lemmas example_defs =
  show_text_def example_risk_an_def example_settings_def example_report_def example_fta_def
  example_ccf_entry_def
  example_sum_of_products_def example_calc_time_def example_pa_def example_importance_def
  example_ua_def example_measure_def example_quantiles_def

lemmas build_defs =
  element_def add_child_text_def Let_def find_children_def lexical_cast_int_def
  lexical_cast_nat.simps digit_char_def

lemma example_SetupReport:
  "SetupReport show_text ''0.7.0'' ''2015-Jan-01 00:00:00'' example_risk_an example_settings None =
     Normal (Some (example_report [] []))"
  by (simp add: SetupReport_def example_defs build_defs)

lemma example_ReportFta:
  "ReportFta nd show_text ft_name example_fta None (Some (example_report cts rs)) =
     Normal (Some (example_report (cts @ [example_calc_time ft_name []])
                    (rs @ [example_sum_of_products ft_name])))"
  by (simp add: ReportFta_def ReportFta_sum_of_products_def ReportFta_calc_time_def
        ReportFta_product_def ReportFta_member_def split_def example_defs build_defs)

lemma example_ReportImportance:
  "ReportImportance nd show_text ft_name example_pa
     (Some (example_report [example_calc_time ''A'' [], example_calc_time ''B'' []] rs)) =
   Normal (Some (example_report
     [example_calc_time ''A'' [],
      example_calc_time ''B'' [Element ''importance'' [] [TextNode ''0.03'']]]
     (rs @ [example_importance ft_name])))"
  by (simp add: ReportImportance_def ReportImportance_importance_def add_to_last_calc_time_def
        example_defs build_defs)

lemma example_ReportUncertainty:
  "ReportUncertainty nd show_text ft_name example_ua
     (Some (example_report [example_calc_time ''A'' [], example_calc_time ''B'' []] rs)) =
   Normal (Some (example_report
     [example_calc_time ''A'' [],
      example_calc_time ''B'' [Element ''uncertainty'' [] [TextNode ''0.04'']]]
     (rs @ [example_measure ft_name example_quantiles])))"
  by (simp add: ReportUncertainty_def ReportUncertainty_measure_eq num_bins_of_small
        quantile_entry_def add_to_last_calc_time_def example_defs build_defs upt_rec)

lemma length_big_sample: "length big_sample = 2 ^ 31 + 1"
  by (simp add: big_sample_def)

lemma big_ReportUncertainty:
  "ReportUncertainty nd show_text ft_name big_ua
     (Some (example_report [example_calc_time ''A'' []] rs)) =
   Normal (Some (example_report
     [example_calc_time ''A'' [Element ''uncertainty'' [] [TextNode ''0.04'']]]
     (rs @ [example_measure ft_name (Element ''quantiles'' [(''number'', ''-2147483648'')] [])])))"
proof -
  have "distribution big_ua = big_sample" by (simp add: big_ua_def)
  then have nb: "num_bins_of (length (distribution big_ua)) = - 2147483648"
    using num_bins_of_big by (simp add: length_big_sample)
  have rest: "ua_warnings big_ua = ''''" "mean big_ua = ''0.5''" "sigma big_ua = ''0.1''"
    "confidence_interval big_ua = (''0.3'', ''0.7'')" "ua_p_time big_ua = ''0.04''"
    by (simp_all add: big_ua_def example_ua_def)
  have m: "ReportUncertainty_measure show_text ft_name big_ua =
      example_measure ft_name (Element ''quantiles'' [(''number'', ''-2147483648'')] [])"
    unfolding ReportUncertainty_measure_eq nb rest
    by (simp add: example_measure_def show_text_def lexical_cast_int_def lexical_cast_nat.simps digit_char_def)
  show ?thesis
    unfolding ReportUncertainty_def m rest
    by (simp add: add_to_last_calc_time_def example_report_def example_calc_time_def show_text_def
          build_defs)
qed

section \<open>The claims about the reporter\<close>




text \<open>
  Claim C4. On a document that has a root node \<open>SetupReport\<close> throws the logic error
  about a document that is not empty, and leaves the document as it is. On the
  empty document it returns a report whose \<open>calculated-quantity\<close> blocks are, in
  order: the one for minimal cut set analysis, then one for each of CCF,
  probability, importance and uncertainty analysis whose flag is set, and no
  other.
\<close>

theorem SetupReport_calculated_quantities:
  "SetupReport lc version_core local_time risk_an settings (Some r) =
     Throw (LogicError ''The passed document is not empty for reporting'') (Some r) \<and>
   (\<exists>root. SetupReport lc version_core local_time risk_an settings None = Normal (Some root) \<and>
      calculated_quantities (Some root) =
        ''Minimal Cut Set Analysis'' #
        (if ccf_analysis settings then [''CCF Analysis''] else []) @
        (if probability_analysis settings then [''Probability Analysis''] else []) @
        (if importance_analysis settings then [''Importance Analysis''] else []) @
        (if uncertainty_analysis settings then [''Uncertainty Analysis''] else []))"
  by (simp add: SetupReport_def calculated_quantities_def get_attribute_value_def Let_def
        element_def add_child_text_def)

theorem SetupReport_calculated_quantities_witness:
  "SetupReport show_text ''0.7.0'' ''2015-Jan-01 00:00:00'' example_risk_an example_settings
     (Some (example_report [] [])) =
     Throw (LogicError ''The passed document is not empty for reporting'')
       (Some (example_report [] [])) \<and>
   SetupReport show_text ''0.7.0'' ''2015-Jan-01 00:00:00'' example_risk_an example_settings None =
     Normal (Some (example_report [] [])) \<and>
   calculated_quantities (Some (example_report [] [])) = [''Minimal Cut Set Analysis'']"
proof -
  from SetupReport_calculated_quantities [of show_text "''0.7.0''" "''2015-Jan-01 00:00:00''" example_risk_an
      example_settings "example_report [] []"]
  have "SetupReport show_text ''0.7.0'' ''2015-Jan-01 00:00:00'' example_risk_an example_settings
     (Some (example_report [] [])) =
     Throw (LogicError ''The passed document is not empty for reporting'')
       (Some (example_report [] []))"
    by (rule conjunct1)
  moreover have "calculated_quantities (Some (example_report [] [])) = [''Minimal Cut Set Analysis'']"
    by (simp add: calculated_quantities_def get_attribute_value_def example_report_def)
  ultimately show ?thesis using example_SetupReport by simp
qed

text \<open>
  Claim C5, as the code has it. For a document with one \<open>results\<close> section and at
  least one calculation-time entry, and a distribution sample of length \<open>N\<close> with
  \<open>N \<le> 2^31\<close> (so that \<open>N - 1\<close> fits the \<open>int\<close> bin counter), \<open>ReportUncertainty\<close>
  returns, in either build, having added one \<open>measure\<close> section whose quantile entries are, in
  order, those numbered \<open>1\<close> to \<open>N - 1\<close> (none when \<open>N\<close> is 0), where the entry
  numbered \<open>i\<close> has lower bound \<open>sample[i-1].boundary\<close>, upper bound
  \<open>sample[i].boundary\<close> and value \<open>sample[i].value\<close>.
\<close>

theorem ReportUncertainty_quantile_entries:
  assumes "find_children ''results'' root = [r]"
    and "xpath_nodes [''information'', ''performance'', ''calculation-time''] root \<noteq> []"
    and "length (distribution ua) \<le> 2 ^ 31"
  shows "\<exists>root' m.
     ReportUncertainty ndebug lc ft_name ua (Some root) = Normal (Some root') \<and>
     xpath_nodes [''results'', ''measure''] root' =
       xpath_nodes [''results'', ''measure''] root @ [m] \<and>
     xpath_nodes [''quantiles'', ''quantile''] m =
       map (\<lambda>i. Element ''quantile''
                  [(''number'', lexical_cast_nat i),
                   (''mean'', lc (snd (distribution ua ! i))),
                   (''lower-bound'', lc (fst (distribution ua ! (i - 1)))),
                   (''upper-bound'', lc (fst (distribution ua ! i)))]
                  [])
           [1 ..< length (distribution ua)]"
proof -
  from ReportUncertainty_returns [OF assms(1,2)] obtain doc' where
    run: "ReportUncertainty False lc ft_name ua (Some root) = Normal doc'" by blast
  from ReportUncertainty_Normal [OF run] obtain root' where doc': "doc' = Some root'"
    and m: "xpath_nodes [''results'', ''measure''] root' =
            xpath_nodes [''results'', ''measure''] root @ [ReportUncertainty_measure lc ft_name ua]"
    by blast
  from ReportUncertainty_ndebug [OF run]
  have run': "ReportUncertainty ndebug lc ft_name ua (Some root) = Normal doc'" .
  have "[1 ..< nat (num_bins_of (length (distribution ua))) + 1] = [1 ..< length (distribution ua)]"
  proof (cases "length (distribution ua)")
    case 0
    then show ?thesis by (simp add: num_bins_of_zero)
  next
    case (Suc k)
    with assms(3) have "k < 2 ^ 31" by simp
    then have "num_bins_of (Suc k) = int k" by (rule num_bins_of_Suc)
    with Suc show ?thesis by (simp del: upt_Suc)
  qed
  with ReportUncertainty_measure_quantiles [of lc ft_name ua]
  have "xpath_nodes [''quantiles'', ''quantile''] (ReportUncertainty_measure lc ft_name ua) =
        map (quantile_entry lc (distribution ua)) [1 ..< length (distribution ua)]"
    by (simp del: xpath_nodes.simps upt_Suc)
  also have "quantile_entry lc (distribution ua) =
    (\<lambda>i. Element ''quantile''
                  [(''number'', lexical_cast_nat i),
                   (''mean'', lc (snd (distribution ua ! i))),
                   (''lower-bound'', lc (fst (distribution ua ! (i - 1)))),
                   (''upper-bound'', lc (fst (distribution ua ! i)))]
                  [])"
    by (rule ext) (simp add: quantile_entry_def)
  finally show ?thesis using run' doc' m by blast
qed

theorem ReportUncertainty_quantile_entries_witness:
  "find_children ''results'' (example_report [example_calc_time ''A'' [], example_calc_time ''B'' []] []) = [1] \<and>
   xpath_nodes [''information'', ''performance'', ''calculation-time'']
     (example_report [example_calc_time ''A'' [], example_calc_time ''B'' []] []) \<noteq> [] \<and>
   length (distribution example_ua) = 5 \<and>
   (\<exists>root' m.
     ReportUncertainty False show_text ''A'' example_ua
       (Some (example_report [example_calc_time ''A'' [], example_calc_time ''B'' []] [])) =
       Normal (Some root') \<and>
     xpath_nodes [''results'', ''measure''] root' = [m] \<and>
     xpath_nodes [''quantiles'', ''quantile''] m =
       [Element ''quantile''
          [(''number'', ''1''), (''mean'', ''v1''), (''lower-bound'', ''b0''),
           (''upper-bound'', ''b1'')] [],
        Element ''quantile''
          [(''number'', ''2''), (''mean'', ''v2''), (''lower-bound'', ''b1''),
           (''upper-bound'', ''b2'')] [],
        Element ''quantile''
          [(''number'', ''3''), (''mean'', ''v3''), (''lower-bound'', ''b2''),
           (''upper-bound'', ''b3'')] [],
        Element ''quantile''
          [(''number'', ''4''), (''mean'', ''v4''), (''lower-bound'', ''b3''),
           (''upper-bound'', ''b4'')] []])"
proof -
  let ?root = "example_report [example_calc_time ''A'' [], example_calc_time ''B'' []] []"
  have 1: "find_children ''results'' ?root = [1]"
    by (simp add: example_report_def find_children_def)
  have 2: "xpath_nodes [''information'', ''performance'', ''calculation-time''] ?root \<noteq> []"
    by (simp add: example_report_def example_calc_time_def)
  have len: "length (distribution example_ua) = 5" by (simp add: example_ua_def)
  then have 3: "length (distribution example_ua) \<le> 2 ^ 31" by simp
  have none: "xpath_nodes [''results'', ''measure''] ?root = []"
    by (simp add: example_report_def)
  have entries: "map (\<lambda>i. Element ''quantile''
                  [(''number'', lexical_cast_nat i),
                   (''mean'', show_text (snd (distribution example_ua ! i))),
                   (''lower-bound'', show_text (fst (distribution example_ua ! (i - 1)))),
                   (''upper-bound'', show_text (fst (distribution example_ua ! i)))]
                  [])
           [1 ..< length (distribution example_ua)] =
       [Element ''quantile''
          [(''number'', ''1''), (''mean'', ''v1''), (''lower-bound'', ''b0''),
           (''upper-bound'', ''b1'')] [],
        Element ''quantile''
          [(''number'', ''2''), (''mean'', ''v2''), (''lower-bound'', ''b1''),
           (''upper-bound'', ''b2'')] [],
        Element ''quantile''
          [(''number'', ''3''), (''mean'', ''v3''), (''lower-bound'', ''b2''),
           (''upper-bound'', ''b3'')] [],
        Element ''quantile''
          [(''number'', ''4''), (''mean'', ''v4''), (''lower-bound'', ''b3''),
           (''upper-bound'', ''b4'')] []]"
    by (simp add: example_ua_def show_text_def lexical_cast_nat.simps digit_char_def upt_rec)
  from ReportUncertainty_quantile_entries [OF 1 2 3, of False show_text "''A''"] 1 2 len show ?thesis
    unfolding none entries by simp
qed

text \<open>
  Without the bound on \<open>N\<close> the claim fails: for a sample of \<open>2^31 + 1\<close> points the bin
  counter \<open>int num_bins = size() - 1\<close> is \<open>-2147483648\<close>, the loop body never runs,
  and the measure has no quantile entry at all instead of \<open>2^31\<close> of them.
\<close>

theorem ReportUncertainty_bin_counter_counterexample:
  "length (distribution big_ua) = 2147483649 \<and>
   ReportUncertainty False show_text ''A'' big_ua (Some (example_report [example_calc_time ''A'' []] [])) =
     Normal (Some (example_report
       [example_calc_time ''A'' [Element ''uncertainty'' [] [TextNode ''0.04'']]]
       [example_measure ''A'' (Element ''quantiles'' [(''number'', ''-2147483648'')] [])])) \<and>
   xpath_nodes [''results'', ''measure'', ''quantiles'', ''quantile'']
     (example_report
       [example_calc_time ''A'' [Element ''uncertainty'' [] [TextNode ''0.04'']]]
       [example_measure ''A'' (Element ''quantiles'' [(''number'', ''-2147483648'')] [])]) = []"
proof -
  have "length (distribution big_ua) = 2147483649"
    by (simp add: big_ua_def length_big_sample)
  moreover have "xpath_nodes [''results'', ''measure'', ''quantiles'', ''quantile'']
     (example_report
       [example_calc_time ''A'' [Element ''uncertainty'' [] [TextNode ''0.04'']]]
       [example_measure ''A'' (Element ''quantiles'' [(''number'', ''-2147483648'')] [])]) = []"
    by (simp add: example_report_def example_measure_def)
  ultimately show ?thesis
    using big_ReportUncertainty [of False "''A''" "[]"] by simp
qed

text \<open>
  Claim C6. \<open>ReportFta\<close> adds its calculation-time entry, named after the tree, after
  all calculation-time entries that are in the performance log. \<open>ReportImportance\<close>
  and \<open>ReportUncertainty\<close> add their time to the last calculation-time entry of
  the performance log and leave the other entries as they are; the tree name
  they are called with plays no part in the choice. This is so for every call
  that returns in the build with assertions, and the build with \<open>NDEBUG\<close> then
  returns the same document. The witness is the sequence of the claim: after
  \<open>ReportFta\<close> for tree \<open>A\<close> and then for tree \<open>B\<close>, a call of \<open>ReportImportance\<close> or
  \<open>ReportUncertainty\<close> for tree \<open>A\<close> puts the time into the entry of \<open>B\<close>.
\<close>

theorem calculation_time_last_entry:
  "(ReportFta False lc ft_name fta pa doc = Normal doc' \<longrightarrow>
      ReportFta ndebug lc ft_name fta pa doc = Normal doc' \<and>
      (\<exists>root root'. doc = Some root \<and> doc' = Some root' \<and>
         xpath_nodes [''information'', ''performance'', ''calculation-time''] root' =
           xpath_nodes [''information'', ''performance'', ''calculation-time''] root @
           [Element ''calculation-time'' [(''name'', ft_name)]
              (Element ''minimal-cut-set'' [] [TextNode (lc (analysis_time fta))] #
               (case pa of None \<Rightarrow> []
                | Some p \<Rightarrow> [Element ''probability'' [] [TextNode (lc (pa_p_time p))]]))])) \<and>
   (ReportImportance False lc ft_name2 pa2 doc2 = Normal doc2' \<longrightarrow>
      ReportImportance ndebug lc ft_name2 pa2 doc2 = Normal doc2' \<and>
      (\<exists>root root'. doc2 = Some root \<and> doc2' = Some root' \<and>
         xpath_nodes [''information'', ''performance'', ''calculation-time''] root \<noteq> [] \<and>
         xpath_nodes [''information'', ''performance'', ''calculation-time''] root' =
           butlast (xpath_nodes [''information'', ''performance'', ''calculation-time''] root) @
           [add_child (last (xpath_nodes [''information'', ''performance'', ''calculation-time''] root))
              (Element ''importance'' [] [TextNode (lc (imp_time pa2))])])) \<and>
   (ReportUncertainty False lc ft_name3 ua doc3 = Normal doc3' \<longrightarrow>
      ReportUncertainty ndebug lc ft_name3 ua doc3 = Normal doc3' \<and>
      (\<exists>root root'. doc3 = Some root \<and> doc3' = Some root' \<and>
         xpath_nodes [''information'', ''performance'', ''calculation-time''] root \<noteq> [] \<and>
         xpath_nodes [''information'', ''performance'', ''calculation-time''] root' =
           butlast (xpath_nodes [''information'', ''performance'', ''calculation-time''] root) @
           [add_child (last (xpath_nodes [''information'', ''performance'', ''calculation-time''] root))
              (Element ''uncertainty'' [] [TextNode (lc (ua_p_time ua))])]))"
proof (intro conjI impI)
  assume run: "ReportFta False lc ft_name fta pa doc = Normal doc'"
  then show "ReportFta ndebug lc ft_name fta pa doc = Normal doc'"
    by (rule ReportFta_ndebug)
  from ReportFta_Normal [OF run]
  show "\<exists>root root'. doc = Some root \<and> doc' = Some root' \<and>
         xpath_nodes [''information'', ''performance'', ''calculation-time''] root' =
           xpath_nodes [''information'', ''performance'', ''calculation-time''] root @
           [Element ''calculation-time'' [(''name'', ft_name)]
              (Element ''minimal-cut-set'' [] [TextNode (lc (analysis_time fta))] #
               (case pa of None \<Rightarrow> []
                | Some p \<Rightarrow> [Element ''probability'' [] [TextNode (lc (pa_p_time p))]]))]"
    unfolding ReportFta_calc_time_eq by blast
next
  assume run: "ReportImportance False lc ft_name2 pa2 doc2 = Normal doc2'"
  then show "ReportImportance ndebug lc ft_name2 pa2 doc2 = Normal doc2'"
    by (rule ReportImportance_ndebug)
  from ReportImportance_Normal [OF run]
  show "\<exists>root root'. doc2 = Some root \<and> doc2' = Some root' \<and>
         xpath_nodes [''information'', ''performance'', ''calculation-time''] root \<noteq> [] \<and>
         xpath_nodes [''information'', ''performance'', ''calculation-time''] root' =
           butlast (xpath_nodes [''information'', ''performance'', ''calculation-time''] root) @
           [add_child (last (xpath_nodes [''information'', ''performance'', ''calculation-time''] root))
              (Element ''importance'' [] [TextNode (lc (imp_time pa2))])]" .
next
  assume run: "ReportUncertainty False lc ft_name3 ua doc3 = Normal doc3'"
  then show "ReportUncertainty ndebug lc ft_name3 ua doc3 = Normal doc3'"
    by (rule ReportUncertainty_ndebug)
  from ReportUncertainty_Normal [OF run]
  show "\<exists>root root'. doc3 = Some root \<and> doc3' = Some root' \<and>
         xpath_nodes [''information'', ''performance'', ''calculation-time''] root \<noteq> [] \<and>
         xpath_nodes [''information'', ''performance'', ''calculation-time''] root' =
           butlast (xpath_nodes [''information'', ''performance'', ''calculation-time''] root) @
           [add_child (last (xpath_nodes [''information'', ''performance'', ''calculation-time''] root))
              (Element ''uncertainty'' [] [TextNode (lc (ua_p_time ua))])]"
    by blast
qed

theorem calculation_time_last_entry_witness:
  "ReportFta False show_text ''A'' example_fta None (Some (example_report [] [])) =
     Normal (Some (example_report [example_calc_time ''A'' []] [example_sum_of_products ''A''])) \<and>
   ReportFta False show_text ''B'' example_fta None
     (Some (example_report [example_calc_time ''A'' []] [example_sum_of_products ''A''])) =
     Normal (Some (example_report [example_calc_time ''A'' [], example_calc_time ''B'' []]
       [example_sum_of_products ''A'', example_sum_of_products ''B''])) \<and>
   (\<exists>root'. ReportImportance False show_text ''A'' example_pa
       (Some (example_report [example_calc_time ''A'' [], example_calc_time ''B'' []]
          [example_sum_of_products ''A'', example_sum_of_products ''B''])) = Normal (Some root') \<and>
      ReportImportance True show_text ''A'' example_pa
       (Some (example_report [example_calc_time ''A'' [], example_calc_time ''B'' []]
          [example_sum_of_products ''A'', example_sum_of_products ''B''])) = Normal (Some root') \<and>
      xpath_nodes [''information'', ''performance'', ''calculation-time''] root' =
        [example_calc_time ''A'' [],
         example_calc_time ''B'' [Element ''importance'' [] [TextNode ''0.03'']]]) \<and>
   (\<exists>root'. ReportUncertainty False show_text ''A'' example_ua
       (Some (example_report [example_calc_time ''A'' [], example_calc_time ''B'' []]
          [example_sum_of_products ''A'', example_sum_of_products ''B''])) = Normal (Some root') \<and>
      ReportUncertainty True show_text ''A'' example_ua
       (Some (example_report [example_calc_time ''A'' [], example_calc_time ''B'' []]
          [example_sum_of_products ''A'', example_sum_of_products ''B''])) = Normal (Some root') \<and>
      xpath_nodes [''information'', ''performance'', ''calculation-time''] root' =
        [example_calc_time ''A'' [],
         example_calc_time ''B'' [Element ''uncertainty'' [] [TextNode ''0.04'']]])"
proof -
  let ?rs = "[example_sum_of_products ''A'', example_sum_of_products ''B'']"
  let ?root = "example_report [example_calc_time ''A'' [], example_calc_time ''B'' []] ?rs"
  have a: "ReportFta False show_text ''A'' example_fta None (Some (example_report [] [])) =
     Normal (Some (example_report [example_calc_time ''A'' []] [example_sum_of_products ''A'']))"
    using example_ReportFta [of False "''A''" "[]" "[]"] by simp
  have b: "ReportFta False show_text ''B'' example_fta None
     (Some (example_report [example_calc_time ''A'' []] [example_sum_of_products ''A''])) =
     Normal (Some ?root)"
    using example_ReportFta [of False "''B''" "[example_calc_time ''A'' []]" "[example_sum_of_products ''A'']"]
    by simp
  have cts: "xpath_nodes [''information'', ''performance'', ''calculation-time''] ?root =
      [example_calc_time ''A'' [], example_calc_time ''B'' []]"
    by (simp add: example_report_def example_calc_time_def)
  let ?root_imp = "example_report
        [example_calc_time ''A'' [],
         example_calc_time ''B'' [Element ''importance'' [] [TextNode ''0.03'']]]
        (?rs @ [example_importance ''A''])"
  let ?root_unc = "example_report
        [example_calc_time ''A'' [],
         example_calc_time ''B'' [Element ''uncertainty'' [] [TextNode ''0.04'']]]
        (?rs @ [example_measure ''A'' example_quantiles])"
  have imp: "ReportImportance False show_text ''A'' example_pa (Some ?root) = Normal (Some ?root_imp)"
    by (rule example_ReportImportance)
  have unc: "ReportUncertainty False show_text ''A'' example_ua (Some ?root) = Normal (Some ?root_unc)"
    by (rule example_ReportUncertainty)
  note last_entry = calculation_time_last_entry [where ndebug = True and lc = show_text
      and ?ft_name2.0 = "''A''" and ?pa2.0 = example_pa
      and ?doc2.0 = "Some ?root" and doc2' = "Some ?root_imp"
      and ?ft_name3.0 = "''A''" and ua = example_ua
      and ?doc3.0 = "Some ?root" and doc3' = "Some ?root_unc"]
  from last_entry imp have imp': "ReportImportance True show_text ''A'' example_pa (Some ?root) =
      Normal (Some ?root_imp)"
    by blast
  from last_entry imp have
    "\<exists>root root'. Some ?root = Some root \<and> Some ?root_imp = Some root' \<and>
         xpath_nodes [''information'', ''performance'', ''calculation-time''] root \<noteq> [] \<and>
         xpath_nodes [''information'', ''performance'', ''calculation-time''] root' =
           butlast (xpath_nodes [''information'', ''performance'', ''calculation-time''] root) @
           [add_child (last (xpath_nodes [''information'', ''performance'', ''calculation-time''] root))
              (Element ''importance'' [] [TextNode (show_text (imp_time example_pa))])]"
    by blast
  then have "xpath_nodes [''information'', ''performance'', ''calculation-time''] ?root_imp =
           butlast (xpath_nodes [''information'', ''performance'', ''calculation-time''] ?root) @
           [add_child (last (xpath_nodes [''information'', ''performance'', ''calculation-time''] ?root))
              (Element ''importance'' [] [TextNode (show_text (imp_time example_pa))])]"
    by blast
  then have "xpath_nodes [''information'', ''performance'', ''calculation-time''] ?root_imp =
        [example_calc_time ''A'' [],
         example_calc_time ''B'' [Element ''importance'' [] [TextNode ''0.03'']]]"
    unfolding cts by (simp add: example_calc_time_def show_text_def example_pa_def)
  with imp imp' have i: "\<exists>root'. ReportImportance False show_text ''A'' example_pa (Some ?root) = Normal (Some root') \<and>
      ReportImportance True show_text ''A'' example_pa (Some ?root) = Normal (Some root') \<and>
      xpath_nodes [''information'', ''performance'', ''calculation-time''] root' =
        [example_calc_time ''A'' [],
         example_calc_time ''B'' [Element ''importance'' [] [TextNode ''0.03'']]]"
    by blast
  from last_entry unc have unc': "ReportUncertainty True show_text ''A'' example_ua (Some ?root) =
      Normal (Some ?root_unc)"
    by blast
  from last_entry unc have
    "\<exists>root root'. Some ?root = Some root \<and> Some ?root_unc = Some root' \<and>
         xpath_nodes [''information'', ''performance'', ''calculation-time''] root \<noteq> [] \<and>
         xpath_nodes [''information'', ''performance'', ''calculation-time''] root' =
           butlast (xpath_nodes [''information'', ''performance'', ''calculation-time''] root) @
           [add_child (last (xpath_nodes [''information'', ''performance'', ''calculation-time''] root))
              (Element ''uncertainty'' [] [TextNode (show_text (ua_p_time example_ua))])]"
    by blast
  then have "xpath_nodes [''information'', ''performance'', ''calculation-time''] ?root_unc =
           butlast (xpath_nodes [''information'', ''performance'', ''calculation-time''] ?root) @
           [add_child (last (xpath_nodes [''information'', ''performance'', ''calculation-time''] ?root))
              (Element ''uncertainty'' [] [TextNode (show_text (ua_p_time example_ua))])]"
    by blast
  then have "xpath_nodes [''information'', ''performance'', ''calculation-time''] ?root_unc =
        [example_calc_time ''A'' [],
         example_calc_time ''B'' [Element ''uncertainty'' [] [TextNode ''0.04'']]]"
    unfolding cts by (simp add: example_calc_time_def show_text_def example_ua_def)
  with unc unc' have u: "\<exists>root'. ReportUncertainty False show_text ''A'' example_ua (Some ?root) = Normal (Some root') \<and>
      ReportUncertainty True show_text ''A'' example_ua (Some ?root) = Normal (Some root') \<and>
      xpath_nodes [''information'', ''performance'', ''calculation-time''] root' =
        [example_calc_time ''A'' [],
         example_calc_time ''B'' [Element ''uncertainty'' [] [TextNode ''0.04'']]]"
    by blast
  from a b i u show ?thesis by (intro conjI)
qed

text \<open>
  Claim C9, as the code has it. In the build with assertions, \<open>ReportOrphans\<close> with no
  orphan fails its assertion, whatever the document is, and so attaches nothing.
  With at least one orphan, and a document with one \<open>information\<close> section, it
  returns, in either build, having added to that section one \<open>warning\<close> whose text
  is the header followed by the display identifier of every orphan, each with a
  space after it.
\<close>

theorem ReportOrphans_warning:
  "ReportOrphans False [] doc = Abort ''!orphan_primary_events.empty()'' \<and>
   (orphans \<noteq> [] \<and> find_children ''information'' root = [i] \<longrightarrow>
      (\<exists>root'. ReportOrphans ndebug orphans (Some root) = Normal (Some root') \<and>
         xpath_nodes [''information'', ''warning''] root' =
           xpath_nodes [''information'', ''warning''] root @
           [Element ''warning'' []
              [TextNode (''WARNING! Found unused primary events: '' @
                 concat (map (\<lambda>e. primary_orig_id e @ '' '') orphans))]]))"
proof (intro conjI impI)
  show "ReportOrphans False [] doc = Abort ''!orphan_primary_events.empty()''"
    by (simp add: ReportOrphans_def)
next
  assume a: "orphans \<noteq> [] \<and> find_children ''information'' root = [i]"
  let ?w = "Element ''warning'' []
              [TextNode (''WARNING! Found unused primary events: '' @
                 concat (map (\<lambda>e. primary_orig_id e @ '' '') orphans))]"
  let ?root' = "update_at [i] (\<lambda>information. add_child information ?w) root"
  from a have run: "ReportOrphans ndebug orphans (Some root) = Normal (Some ?root')"
    by (simp add: ReportOrphans_def Let_def ReportOrphans_loop_eq element_def add_child_text_def
             del: update_at.simps)
  from a have "xpath_find ([] @ [''information'']) root = [[i]]" by simp
  from xpath_nodes_add_child_single [OF this, of "''warning''" ?w]
  have "xpath_nodes [''information'', ''warning''] ?root' =
        xpath_nodes [''information'', ''warning''] root @ [?w]"
    by (simp del: update_at.simps xpath_nodes.simps)
  with run show "\<exists>root'. ReportOrphans ndebug orphans (Some root) = Normal (Some root') \<and>
         xpath_nodes [''information'', ''warning''] root' =
           xpath_nodes [''information'', ''warning''] root @ [?w]"
    by blast
qed

theorem ReportOrphans_warning_witness:
  "find_children ''information'' (example_report [] []) = [0] \<and>
   information_warnings
     (ReportOrphans False [Basic (BasicEvent ''c'' ''C''), HouseEvent ''h'' ''H'']
        (Some (example_report [] []))) =
     Some [Element ''warning'' [] [TextNode ''WARNING! Found unused primary events: C H '']] \<and>
   information_warnings
     (ReportOrphans True [Basic (BasicEvent ''c'' ''C''), HouseEvent ''h'' ''H'']
        (Some (example_report [] []))) =
     Some [Element ''warning'' [] [TextNode ''WARNING! Found unused primary events: C H '']] \<and>
   ReportOrphans False [] (Some (example_report [] [])) = Abort ''!orphan_primary_events.empty()''"
proof -
  let ?os = "[Basic (BasicEvent ''c'' ''C''), HouseEvent ''h'' ''H'']"
  have 1: "find_children ''information'' (example_report [] []) = [0]"
    by (simp add: example_report_def find_children_def)
  have none: "xpath_nodes [''information'', ''warning''] (example_report [] []) = []"
    by (simp add: example_report_def)
  have w: "information_warnings (ReportOrphans nd ?os (Some (example_report [] []))) =
      Some [Element ''warning'' [] [TextNode ''WARNING! Found unused primary events: C H '']]"
    for nd
  proof -
    from ReportOrphans_warning [of _ ?os "example_report [] []" 0 nd] 1
    obtain root' where "ReportOrphans nd ?os (Some (example_report [] [])) = Normal (Some root')"
      and "xpath_nodes [''information'', ''warning''] root' =
           xpath_nodes [''information'', ''warning''] (example_report [] []) @
           [Element ''warning'' []
              [TextNode (''WARNING! Found unused primary events: '' @
                 concat (map (\<lambda>e. primary_orig_id e @ '' '') ?os))]]"
      by auto
    then show ?thesis
      unfolding none by (simp add: information_warnings_def del: xpath_nodes.simps)
  qed
  from ReportOrphans_warning [of "Some (example_report [] [])"]
  have "ReportOrphans False [] (Some (example_report [] [])) = Abort ''!orphan_primary_events.empty()''"
    by (rule conjunct1)
  with 1 w [of False] w [of True] show ?thesis by (intro conjI)
qed

text \<open>
  The claim as written has no condition on the build. The assertion is the only
  check of the set: built with \<open>NDEBUG\<close>, \<open>ReportOrphans\<close> with no orphan returns and
  has attached a warning that consists of the header alone.
\<close>

theorem ReportOrphans_ndebug_counterexample:
  "ReportOrphans True [] (Some (example_report [] [])) =
     Normal (Some (update_at [0]
       (\<lambda>information. add_child information
          (Element ''warning'' [] [TextNode ''WARNING! Found unused primary events: '']))
       (example_report [] []))) \<and>
   information_warnings (ReportOrphans True [] (Some (example_report [] []))) =
     Some [Element ''warning'' [] [TextNode ''WARNING! Found unused primary events: '']] \<and>
   information_warnings (ReportOrphans False [] (Some (example_report [] []))) = None"
  by (simp add: ReportOrphans_def information_warnings_def example_report_def find_children_def
        element_def add_child_text_def)

end
